theory Spec2Isabelle
  imports Complex_Main
begin

section \<open>JavaScript strings\<close>

text \<open>
  A JavaScript string is a sequence of UTF-16 code units; a code unit is modelled as a
  natural number. \<open>js\<close> turns a literal of the source into its code units.
\<close>

type_synonym jsstring = "nat list"

definition js :: "string \<Rightarrow> jsstring" where
  "js s = map of_char s"

text \<open>The regular-expression classes the source uses: \<open>\d\<close>, \<open>\s\<close> and \<open>[\s\-\+]\<close>.\<close>

definition isDigit :: "nat \<Rightarrow> bool" where
  "isDigit c = (48 \<le> c \<and> c \<le> 57)"

definition isSpace :: "nat \<Rightarrow> bool" where
  "isSpace c = (c \<in> set [9, 10, 11, 12, 13, 32, 160, 5760, 8232, 8233, 8239, 8287, 12288, 65279]
                \<or> (8192 \<le> c \<and> c \<le> 8202))"

definition isSeparator :: "nat \<Rightarrow> bool" where
  "isSeparator c = (isSpace c \<or> c = 45 \<or> c = 43)"

text \<open>\<open>String.prototype.includes\<close>: does \<open>t\<close> occur in \<open>s\<close> as a contiguous run.\<close>

fun includesStr :: "jsstring \<Rightarrow> jsstring \<Rightarrow> bool" where
  "includesStr [] t = (t = [])"
| "includesStr (x # xs) t = (take (length t) (x # xs) = t \<or> includesStr xs t)"

text \<open>\<open>String.prototype.trim\<close> removes the white space and line terminators of \<open>\s\<close>
  from both ends.\<close>

definition trim :: "jsstring \<Rightarrow> jsstring" where
  "trim s = rev (dropWhile isSpace (rev (dropWhile isSpace s)))"

text \<open>
  \<open>String.prototype.toLowerCase\<close> is the Unicode mapping of the language. The resolver
  takes it as the parameter \<open>lc\<close>; \<open>asciiLower\<close> is its restriction to the letters A to Z,
  with which it agrees on ASCII text.
\<close>

definition asciiLower :: "jsstring \<Rightarrow> jsstring" where
  "asciiLower s = map (\<lambda>c. if 65 \<le> c \<and> c \<le> 90 then c + 32 else c) s"

section \<open>Recipient resolver (controllers/message.controller.js)\<close>

text \<open>A chat as \<open>client.getChats()\<close> lists it: \<open>isGroup\<close>, \<open>name\<close> (may be undefined) and
  \<open>id._serialized\<close>.\<close>

record chat =
  isGroup :: bool
  name :: "jsstring option"
  serialized :: jsstring

text \<open>The object \<open>resolveRecipient\<close> returns: \<open>{id, name, found, partialMatch, error}\<close>; a
  field the source leaves out is \<open>None\<close> (\<open>False\<close> for \<open>partialMatch\<close>).\<close>

record resolved =
  r_id :: "jsstring option"
  r_name :: "jsstring option"
  r_found :: "bool option"
  r_partialMatch :: bool
  r_error :: "jsstring option"

definition passThrough :: "jsstring \<Rightarrow> resolved" where
  "passThrough i =
     \<lparr>r_id = Some i, r_name = None, r_found = None, r_partialMatch = False, r_error = None\<rparr>"

definition notFound :: "jsstring \<Rightarrow> jsstring option \<Rightarrow> resolved" where
  "notFound recipient err =
     \<lparr>r_id = None, r_name = Some recipient, r_found = Some False, r_partialMatch = False,
      r_error = err\<rparr>"

definition matched :: "chat \<Rightarrow> bool \<Rightarrow> resolved" where
  "matched c partial =
     \<lparr>r_id = Some (serialized c), r_name = name c, r_found = Some True,
      r_partialMatch = partial, r_error = None\<rparr>"

text \<open>The two predicates given to \<open>chats.find\<close>: \<open>chat.isGroup && chat.name && ...\<close>; an
  undefined or empty name is falsy.\<close>

definition exactMatch :: "(jsstring \<Rightarrow> jsstring) \<Rightarrow> jsstring \<Rightarrow> chat \<Rightarrow> bool" where
  "exactMatch lc recipient c =
     (isGroup c \<and> (case name c of None \<Rightarrow> False
                    | Some n \<Rightarrow> n \<noteq> [] \<and> lc n = lc recipient))"

definition partialMatches :: "(jsstring \<Rightarrow> jsstring) \<Rightarrow> jsstring \<Rightarrow> chat \<Rightarrow> bool" where
  "partialMatches lc recipient c =
     (isGroup c \<and> (case name c of None \<Rightarrow> False
                    | Some n \<Rightarrow> n \<noteq> [] \<and> includesStr (lc n) (lc recipient)))"

text \<open>
  \<open>resolveRecipient(client, recipient)\<close>. The only capability of the client it uses is
  \<open>getChats()\<close>, whose outcome (the chat list, or the message of the error it throws) is the
  argument \<open>getChats\<close>. The second component of the result counts the calls made to the
  client.
\<close>

definition resolveRecipient ::
  "(jsstring \<Rightarrow> jsstring) \<Rightarrow> jsstring + chat list \<Rightarrow> jsstring \<Rightarrow> resolved \<times> nat" where
  "resolveRecipient lc getChats recipient =
     (if includesStr recipient (js ''@g.us'') \<or> includesStr recipient (js ''@c.us'')
      then (passThrough recipient, 0)
      else if includesStr recipient (js ''-'')
      then (passThrough (recipient @ js ''@g.us''), 0)
      else
        let cleanNumber = filter isDigit recipient in
        if length cleanNumber \<ge> 10
           \<and> cleanNumber = filter (\<lambda>c. \<not> isSeparator c) recipient
        then (passThrough (cleanNumber @ js ''@c.us''), 0)
        else
          (case getChats of
             Inl msg \<Rightarrow> (notFound recipient (Some msg), 1)
           | Inr chats \<Rightarrow>
               (case find (exactMatch lc recipient) chats of
                  Some c \<Rightarrow> (matched c False, 1)
                | None \<Rightarrow>
                    (case find (partialMatches lc recipient) chats of
                       Some c \<Rightarrow> (matched c True, 1)
                     | None \<Rightarrow> (notFound recipient None, 1)))))"


section \<open>Batch dispatch (\<open>sendBatchMessage\<close>, controllers/message.controller.js)\<close>

text \<open>
  \<open>randomDelay(min, max) = Math.floor(Math.random() * (max - min + 1)) + min\<close>; the
  draw \<open>u\<close> of \<open>Math.random()\<close> is an argument. The bounds are integer numbers of
  milliseconds, as a JSON body gives them. A bound that arrives as a string (a field of a
  multipart form) turns \<open>+ min\<close> into a concatenation; that case is outside this model.
\<close>

definition randomDelay :: "int \<Rightarrow> int \<Rightarrow> real \<Rightarrow> int" where
  "randomDelay mn mx u = \<lfloor>u * real_of_int (mx - mn + 1)\<rfloor> + mn"

text \<open>An uploaded file as the controller stores it, and a \<open>MessageMedia\<close> object.\<close>

record localMedia =
  mimeType :: jsstring
  base64 :: jsstring
  filename :: jsstring

record messageMedia =
  mm_mimetype :: jsstring
  mm_data :: jsstring
  mm_filename :: "jsstring option"

text \<open>What is handed to \<open>client.sendMessage\<close>: a text, or a media object with its options
  (the caption, when set).\<close>

datatype content = Text jsstring | MediaMsg messageMedia "jsstring option"

datatype sendStatus = Sent | Failed

text \<open>One object of the \<open>results\<close> array; a field the source does not set is \<open>None\<close>.\<close>

record entry =
  e_sessionId :: jsstring
  e_to :: "jsstring option"
  e_originalRecipient :: "jsstring option"
  e_groupName :: "jsstring option"
  e_type :: "jsstring option"
  e_filename :: "jsstring option"
  e_status :: "sendStatus option"
  e_messageId :: "jsstring option"
  e_error :: "jsstring option"

definition errorEntry :: "jsstring \<Rightarrow> jsstring \<Rightarrow> entry" where
  "errorEntry sessionId msg =
     \<lparr>e_sessionId = sessionId, e_to = None, e_originalRecipient = None, e_groupName = None,
      e_type = None, e_filename = None, e_status = None, e_messageId = None,
      e_error = Some msg\<rparr>"

definition failedEntry :: "jsstring \<Rightarrow> jsstring \<Rightarrow> jsstring \<Rightarrow> entry" where
  "failedEntry sessionId recipient msg =
     \<lparr>e_sessionId = sessionId, e_to = Some recipient, e_originalRecipient = None,
      e_groupName = None, e_type = None, e_filename = None, e_status = Some Failed,
      e_messageId = None, e_error = Some msg\<rparr>"

definition sentEntry ::
  "jsstring \<Rightarrow> jsstring \<Rightarrow> jsstring \<Rightarrow> jsstring \<Rightarrow> jsstring \<Rightarrow> jsstring option \<Rightarrow> entry" where
  "sentEntry sessionId recipientId recipient groupName ty fname =
     \<lparr>e_sessionId = sessionId, e_to = Some recipientId, e_originalRecipient = Some recipient,
      e_groupName = Some groupName, e_type = Some ty, e_filename = fname,
      e_status = Some Sent, e_messageId = None, e_error = None\<rparr>"

text \<open>The calls the loop makes, in the order it makes them: \<open>resolveRecipient\<close> for a
  (session, recipient) pair, the client's \<open>getChats\<close> and \<open>sendMessage\<close>, and \<open>delay\<close>.\<close>

datatype effect =
    Resolve jsstring jsstring
  | GetChats jsstring
  | SendMessage jsstring jsstring content
  | Sleep int

text \<open>The request body after the \<open>JSON.parse\<close> of its string fields, with the uploaded
  files already read and the defaults 15000 and 20000 of the delay bounds filled in.\<close>

record request =
  rq_sessionIds :: "jsstring list"
  rq_to :: "jsstring list"
  rq_text :: "jsstring option"
  rq_files :: "localMedia list"
  rq_mediaUrls :: "jsstring list"
  rq_delayMin :: int
  rq_delayMax :: int

text \<open>
  The collaborators of one run, as outcomes indexed by the position of the call:
  \<open>MessageMedia.fromUrl\<close> by the index of the URL, \<open>getOrRestoreClient\<close> by the index of
  the session (an error message, or whether the client it returns has \<open>info\<close>),
  \<open>getChats\<close> and \<open>Math.random\<close> by the indices of recipient and session, and
  \<open>sendMessage\<close> by those and the index of the content item (an error message, or the
  id of the message). Each position is visited once in a run, so no behaviour is excluded.
\<close>

record provider =
  p_fromUrl :: "nat \<Rightarrow> jsstring \<Rightarrow> jsstring + messageMedia"
  p_getOrRestoreClient :: "nat \<Rightarrow> jsstring \<Rightarrow> jsstring + bool"
  p_getChats :: "nat \<Rightarrow> nat \<Rightarrow> jsstring + chat list"
  p_sendMessage :: "nat \<Rightarrow> nat \<Rightarrow> nat \<Rightarrow> jsstring \<Rightarrow> content \<Rightarrow> jsstring + jsstring"
  p_mathRandom :: "nat \<Rightarrow> nat \<Rightarrow> real"

datatype client = Client jsstring

record bstate =
  results :: "entry list"
  effects :: "effect list"
  messageCount :: nat

datatype response =
    BadRequest jsstring
  | ServerError jsstring jsstring
  | Success nat "entry list"

text \<open>\<open>text?.trim()\<close> is truthy.\<close>

definition textPresent :: "jsstring option \<Rightarrow> bool" where
  "textPresent t = (case t of None \<Rightarrow> False | Some s \<Rightarrow> trim s \<noteq> [])"

text \<open>The loop over \<open>mediaUrls\<close>; an error of \<open>fromUrl\<close> leaves the function.\<close>

fun fetchRemote ::
  "provider \<Rightarrow> nat \<Rightarrow> jsstring list \<Rightarrow> messageMedia list \<Rightarrow> jsstring + messageMedia list" where
  "fetchRemote P i [] acc = Inr acc"
| "fetchRemote P i (url # urls) acc =
     (case p_fromUrl P i url of
        Inl msg \<Rightarrow> Inl msg
      | Inr media \<Rightarrow> fetchRemote P (Suc i) urls (acc @ [media]))"

text \<open>"Prepare all clients first": the loop that fills \<open>clientMap\<close>.\<close>

fun prepareClients ::
  "provider \<Rightarrow> nat \<Rightarrow> jsstring list \<Rightarrow> (jsstring \<rightharpoonup> client) \<times> entry list
     \<Rightarrow> (jsstring \<rightharpoonup> client) \<times> entry list" where
  "prepareClients P i [] acc = acc"
| "prepareClients P i (sessionId # rest) (clientMap, res) =
     (case p_getOrRestoreClient P i sessionId of
        Inl msg \<Rightarrow> prepareClients P (Suc i) rest (clientMap, res @ [errorEntry sessionId msg])
      | Inr hasInfo \<Rightarrow>
          if \<not> hasInfo
          then prepareClients P (Suc i) rest
                 (clientMap, res @ [errorEntry sessionId (js ''Client not ready yet'')])
          else prepareClients P (Suc i) rest (clientMap(sessionId \<mapsto> Client sessionId), res))"

text \<open>The content items of one pair, each with the entry pushed when it is sent: the text
  alone when there is no media, else the local files and then the remote media, the caption
  on the first item only.\<close>

definition localItems ::
  "request \<Rightarrow> jsstring \<Rightarrow> jsstring \<Rightarrow> jsstring \<Rightarrow> jsstring \<Rightarrow> (content \<times> entry) list" where
  "localItems rq sessionId recipientId recipient groupName =
     map (\<lambda>(i, mediaData).
            (MediaMsg \<lparr>mm_mimetype = mimeType mediaData, mm_data = base64 mediaData,
                       mm_filename = Some (filename mediaData)\<rparr>
               (if i = 0 \<and> textPresent (rq_text rq) then rq_text rq else None),
             sentEntry sessionId recipientId recipient groupName (mimeType mediaData)
               (Some (filename mediaData))))
         (enumerate 0 (rq_files rq))"

definition remoteItems ::
  "request \<Rightarrow> messageMedia list \<Rightarrow> jsstring \<Rightarrow> jsstring \<Rightarrow> jsstring \<Rightarrow> jsstring
     \<Rightarrow> (content \<times> entry) list" where
  "remoteItems rq remoteMediaList sessionId recipientId recipient groupName =
     map (\<lambda>(i, media).
            (MediaMsg media
               (if rq_files rq = [] \<and> i = 0 \<and> textPresent (rq_text rq) then rq_text rq
                else None),
             sentEntry sessionId recipientId recipient groupName (mm_mimetype media) None))
         (enumerate 0 remoteMediaList)"

definition pairItems ::
  "request \<Rightarrow> messageMedia list \<Rightarrow> jsstring \<Rightarrow> jsstring \<Rightarrow> jsstring \<Rightarrow> jsstring
     \<Rightarrow> (content \<times> entry) list" where
  "pairItems rq remoteMediaList sessionId recipientId recipient groupName =
     (if rq_files rq = [] \<and> remoteMediaList = []
      then (case rq_text rq of
              None \<Rightarrow> []
            | Some t \<Rightarrow>
                if trim t \<noteq> []
                then [(Text t, sentEntry sessionId recipientId recipient groupName (js ''text'')
                                 None)]
                else [])
      else localItems rq sessionId recipientId recipient groupName
           @ remoteItems rq remoteMediaList sessionId recipientId recipient groupName)"

text \<open>Sending the items in order. A \<open>sendMessage\<close> that throws leaves the \<open>try\<close> block with
  its message; the items after it are not sent.\<close>

fun sendItems ::
  "provider \<Rightarrow> nat \<Rightarrow> nat \<Rightarrow> nat \<Rightarrow> jsstring \<Rightarrow> jsstring \<Rightarrow> (content \<times> entry) list \<Rightarrow> bstate
     \<Rightarrow> (jsstring \<times> bstate) + bstate" where
  "sendItems P ri si k sessionId recipientId [] st = Inr st"
| "sendItems P ri si k sessionId recipientId ((c, e) # items) st =
     (let st1 = st\<lparr>effects := effects st @ [SendMessage sessionId recipientId c]\<rparr> in
      case p_sendMessage P ri si k recipientId c of
        Inl msg \<Rightarrow> Inl (msg, st1)
      | Inr messageId \<Rightarrow>
          sendItems P ri si (Suc k) sessionId recipientId items
            (st1\<lparr>messageCount := Suc (messageCount st1),
                 results := results st1 @ [e\<lparr>e_messageId := Some messageId\<rparr>]\<rparr>))"

text \<open>The body of the inner loop for a session whose client is in \<open>clientMap\<close>: the \<open>try\<close>
  block and its \<open>catch\<close>.\<close>

definition processPair ::
  "provider \<Rightarrow> (jsstring \<Rightarrow> jsstring) \<Rightarrow> request \<Rightarrow> messageMedia list \<Rightarrow> nat \<Rightarrow> nat
     \<Rightarrow> jsstring \<Rightarrow> jsstring \<Rightarrow> bstate \<Rightarrow> bstate" where
  "processPair P lc rq remoteMediaList ri si recipient sessionId st =
     (let (res, calls) = resolveRecipient lc (p_getChats P ri si) recipient;
          st1 = st\<lparr>effects := effects st @ Resolve sessionId recipient
                                 # (if calls = 0 then [] else [GetChats sessionId])\<rparr>
      in case r_id res of
           None \<Rightarrow>
             st1\<lparr>results := results st1
                    @ [failedEntry sessionId recipient (js ''Recipient not found: '' @ recipient)]\<rparr>
         | Some recipientId \<Rightarrow>
             if recipientId = []
             then st1\<lparr>results := results st1
                    @ [failedEntry sessionId recipient (js ''Recipient not found: '' @ recipient)]\<rparr>
             else
               let groupName = (case r_name res of
                                  None \<Rightarrow> recipient
                                | Some n \<Rightarrow> if n = [] then recipient else n)
               in (case sendItems P ri si 0 sessionId recipientId
                          (pairItems rq remoteMediaList sessionId recipientId recipient groupName)
                          st1 of
                     Inl (msg, st2) \<Rightarrow>
                       st2\<lparr>results := results st2 @ [failedEntry sessionId recipient msg]\<rparr>
                   | Inr st2 \<Rightarrow>
                       st2\<lparr>effects := effects st2
                              @ [Sleep (randomDelay (rq_delayMin rq) (rq_delayMax rq)
                                          (p_mathRandom P ri si))]\<rparr>))"

text \<open>The inner loop over \<open>sessionIds\<close> and the outer loop over \<open>to\<close>.\<close>

fun sessionsLoop ::
  "provider \<Rightarrow> (jsstring \<Rightarrow> jsstring) \<Rightarrow> request \<Rightarrow> messageMedia list
     \<Rightarrow> (jsstring \<rightharpoonup> client) \<Rightarrow> nat \<Rightarrow> jsstring \<Rightarrow> nat \<Rightarrow> jsstring list \<Rightarrow> bstate \<Rightarrow> bstate" where
  "sessionsLoop P lc rq remoteMediaList clientMap ri recipient si [] st = st"
| "sessionsLoop P lc rq remoteMediaList clientMap ri recipient si (sessionId # rest) st =
     (case clientMap sessionId of
        None \<Rightarrow> sessionsLoop P lc rq remoteMediaList clientMap ri recipient (Suc si) rest st
      | Some c \<Rightarrow>
          sessionsLoop P lc rq remoteMediaList clientMap ri recipient (Suc si) rest
            (processPair P lc rq remoteMediaList ri si recipient sessionId st))"

fun recipientsLoop ::
  "provider \<Rightarrow> (jsstring \<Rightarrow> jsstring) \<Rightarrow> request \<Rightarrow> messageMedia list
     \<Rightarrow> (jsstring \<rightharpoonup> client) \<Rightarrow> nat \<Rightarrow> jsstring list \<Rightarrow> bstate \<Rightarrow> bstate" where
  "recipientsLoop P lc rq remoteMediaList clientMap ri [] st = st"
| "recipientsLoop P lc rq remoteMediaList clientMap ri (recipient # rest) st =
     recipientsLoop P lc rq remoteMediaList clientMap (Suc ri) rest
       (sessionsLoop P lc rq remoteMediaList clientMap ri recipient 0 (rq_sessionIds rq) st)"

text \<open>\<open>sendBatchMessage\<close>: the response, and the calls made on the way.\<close>

definition sendBatchMessage ::
  "provider \<Rightarrow> (jsstring \<Rightarrow> jsstring) \<Rightarrow> request \<Rightarrow> response \<times> effect list" where
  "sendBatchMessage P lc rq =
     (if rq_sessionIds rq = [] then (BadRequest (js ''sessionIds (array) required''), [])
      else if rq_to rq = [] then (BadRequest (js ''to (array) required''), [])
      else if \<not> textPresent (rq_text rq) \<and> \<not> (rq_files rq \<noteq> [] \<or> rq_mediaUrls rq \<noteq> [])
      then (BadRequest (js ''text or media files required''), [])
      else
        case fetchRemote P 0 (rq_mediaUrls rq) [] of
          Inl msg \<Rightarrow> (ServerError (js ''Failed to send batch messages'') msg, [])
        | Inr remoteMediaList \<Rightarrow>
            let (clientMap, res) = prepareClients P 0 (rq_sessionIds rq) (Map.empty, []);
                st = recipientsLoop P lc rq remoteMediaList clientMap 0 (rq_to rq)
                       \<lparr>results = res, effects = [], messageCount = 0\<rparr>
            in (Success (length (results st)) (results st), effects st))"

text \<open>Reading the calls: the (recipient, session) pairs in the order they are taken up, and
  the delays slept.\<close>

fun pairsOf :: "effect list \<Rightarrow> (jsstring \<times> jsstring) list" where
  "pairsOf [] = []"
| "pairsOf (Resolve s r # es) = (r, s) # pairsOf es"
| "pairsOf (e # es) = pairsOf es"

fun sleepsOf :: "effect list \<Rightarrow> int list" where
  "sleepsOf [] = []"
| "sleepsOf (Sleep d # es) = d # sleepsOf es"
| "sleepsOf (e # es) = sleepsOf es"

text \<open>The request passes the three checks at the head of \<open>sendBatchMessage\<close>.\<close>

definition validRequest :: "request \<Rightarrow> bool" where
  "validRequest rq =
     (rq_sessionIds rq \<noteq> [] \<and> rq_to rq \<noteq> []
      \<and> (textPresent (rq_text rq) \<or> rq_files rq \<noteq> [] \<or> rq_mediaUrls rq \<noteq> []))"

text \<open>For the proofs: the state with nothing recorded, and recording \<open>b\<close> after \<open>a\<close>.\<close>

definition bempty :: bstate where
  "bempty = \<lparr>results = [], effects = [], messageCount = 0\<rparr>"

definition bappend :: "bstate \<Rightarrow> bstate \<Rightarrow> bstate" where
  "bappend a b = \<lparr>results = results a @ results b, effects = effects a @ effects b,
                  messageCount = messageCount a + messageCount b\<rparr>"

text \<open>The \<open>clientMap\<close> of a run, the contents sent to each pair, and the chat id a pair
  resolves to (\<open>None\<close> when \<open>resolved.id\<close> is falsy).\<close>

definition clientMapOf :: "provider \<Rightarrow> request \<Rightarrow> (jsstring \<rightharpoonup> client)" where
  "clientMapOf P rq = fst (prepareClients P 0 (rq_sessionIds rq) (Map.empty, []))"

definition pairContents :: "request \<Rightarrow> messageMedia list \<Rightarrow> content list" where
  "pairContents rq remoteMediaList = map fst (pairItems rq remoteMediaList [] [] [] [])"

definition resolvesTo ::
  "provider \<Rightarrow> (jsstring \<Rightarrow> jsstring) \<Rightarrow> nat \<Rightarrow> nat \<Rightarrow> jsstring \<Rightarrow> jsstring option" where
  "resolvesTo P lc ri si recipient =
     (case r_id (fst (resolveRecipient lc (p_getChats P ri si) recipient)) of
        None \<Rightarrow> None
      | Some i \<Rightarrow> if i = [] then None else Some i)"

subsection \<open>Concrete inputs\<close>


text \<open>Two recipients, two ready sessions, a text; every send succeeds.\<close>

definition requestAB :: request where
  "requestAB =
     \<lparr>rq_sessionIds = [js ''S1'', js ''S2''],
      rq_to = [js ''911234567890'', js ''919876543210''],
      rq_text = Some (js ''hello''), rq_files = [], rq_mediaUrls = [],
      rq_delayMin = 15000, rq_delayMax = 20000\<rparr>"

definition providerOk :: provider where
  "providerOk =
     \<lparr>p_fromUrl = (\<lambda>i url. Inl (js ''unreachable'')),
      p_getOrRestoreClient = (\<lambda>i s. Inr True),
      p_getChats = (\<lambda>ri si. Inr []),
      p_sendMessage = (\<lambda>ri si k chatId c. Inr (js ''msg'')),
      p_mathRandom = (\<lambda>ri si. 1 / 2)\<rparr>"

text \<open>Every content item of the pair is sent: no \<open>sendMessage\<close> of the pair throws.\<close>

definition allSent :: "provider \<Rightarrow> nat \<Rightarrow> nat \<Rightarrow> jsstring \<Rightarrow> content list \<Rightarrow> bool" where
  "allSent P ri si rid cs =
     list_all (\<lambda>(k, c). case p_sendMessage P ri si k rid c of Inl msg \<Rightarrow> False | Inr m \<Rightarrow> True)
       (enumerate 0 cs)"

text \<open>The \<open>sendMessage\<close> calls among the effects: session, chat id and content.\<close>

fun sendsOf :: "effect list \<Rightarrow> (jsstring \<times> jsstring \<times> content) list" where
  "sendsOf [] = []"
| "sendsOf (SendMessage s chatId c # es) = (s, chatId, c) # sendsOf es"
| "sendsOf (e # es) = sendsOf es"

text \<open>\<open>resolved.name || recipient\<close>, the \<open>groupName\<close> of the entries of a pair.\<close>

definition resolvedName ::
  "provider \<Rightarrow> (jsstring \<Rightarrow> jsstring) \<Rightarrow> nat \<Rightarrow> nat \<Rightarrow> jsstring \<Rightarrow> jsstring" where
  "resolvedName P lc ri si recipient =
     (case r_name (fst (resolveRecipient lc (p_getChats P ri si) recipient)) of
        None \<Rightarrow> recipient
      | Some n \<Rightarrow> if n = [] then recipient else n)"

text \<open>
  What the ledger is to hold for one pair, in the words of the specification: one entry
  per content item sent, in order, with the id of the message, and at the first send
  that fails one failed entry with the message of the error, after which the pair is
  left. \<open>attempted\<close> lists the contents handed to \<open>sendMessage\<close> on the way: every
  item up to and including the first that fails. \<open>pairLedger\<close> and \<open>pairSends\<close> put the
  unresolved recipient before that: one failed entry and no send.
\<close>

fun sentUntilFailure ::
  "provider \<Rightarrow> nat \<Rightarrow> nat \<Rightarrow> jsstring \<Rightarrow> jsstring \<Rightarrow> jsstring \<Rightarrow> nat \<Rightarrow> (content \<times> entry) list
     \<Rightarrow> entry list" where
  "sentUntilFailure P ri si sessionId recipient chatId k [] = []"
| "sentUntilFailure P ri si sessionId recipient chatId k ((c, e) # items) =
     (case p_sendMessage P ri si k chatId c of
        Inl msg \<Rightarrow> [failedEntry sessionId recipient msg]
      | Inr messageId \<Rightarrow>
          e\<lparr>e_messageId := Some messageId\<rparr>
          # sentUntilFailure P ri si sessionId recipient chatId (Suc k) items)"

fun attempted :: "provider \<Rightarrow> nat \<Rightarrow> nat \<Rightarrow> jsstring \<Rightarrow> nat \<Rightarrow> content list \<Rightarrow> content list" where
  "attempted P ri si chatId k [] = []"
| "attempted P ri si chatId k (c # cs) =
     c # (case p_sendMessage P ri si k chatId c of
            Inl msg \<Rightarrow> []
          | Inr messageId \<Rightarrow> attempted P ri si chatId (Suc k) cs)"

definition pairLedger ::
  "provider \<Rightarrow> (jsstring \<Rightarrow> jsstring) \<Rightarrow> request \<Rightarrow> messageMedia list \<Rightarrow> nat \<Rightarrow> nat
     \<Rightarrow> jsstring \<Rightarrow> jsstring \<Rightarrow> entry list" where
  "pairLedger P lc rq remoteMediaList ri si recipient sessionId =
     (case resolvesTo P lc ri si recipient of
        None \<Rightarrow> [failedEntry sessionId recipient (js ''Recipient not found: '' @ recipient)]
      | Some chatId \<Rightarrow>
          sentUntilFailure P ri si sessionId recipient chatId 0
            (pairItems rq remoteMediaList sessionId chatId recipient
               (resolvedName P lc ri si recipient)))"

definition pairSends ::
  "provider \<Rightarrow> (jsstring \<Rightarrow> jsstring) \<Rightarrow> request \<Rightarrow> messageMedia list \<Rightarrow> nat \<Rightarrow> nat
     \<Rightarrow> jsstring \<Rightarrow> jsstring \<Rightarrow> (jsstring \<times> jsstring \<times> content) list" where
  "pairSends P lc rq remoteMediaList ri si recipient sessionId =
     (case resolvesTo P lc ri si recipient of
        None \<Rightarrow> []
      | Some chatId \<Rightarrow>
          map (\<lambda>c. (sessionId, chatId, c))
            (attempted P ri si chatId 0 (pairContents rq remoteMediaList)))"

text \<open>One recipient through one session, with a client whose \<open>sendMessage\<close> throws.\<close>

definition requestOne :: request where
  "requestOne =
     \<lparr>rq_sessionIds = [js ''S1''], rq_to = [js ''911234567890''],
      rq_text = Some (js ''hello''), rq_files = [], rq_mediaUrls = [],
      rq_delayMin = 15000, rq_delayMax = 20000\<rparr>"

definition providerSendFails :: provider where
  "providerSendFails =
     providerOk\<lparr>p_sendMessage := (\<lambda>ri si k chatId c. Inl (js ''Evaluation failed''))\<rparr>"

text \<open>The batch of \<open>requestAB\<close> with the delay window \<open>[0, 0]\<close>.\<close>

definition requestZero :: request where
  "requestZero = requestAB\<lparr>rq_delayMin := 0, rq_delayMax := 0\<rparr>"

text \<open>Three recipients through one session; the second is a group name no chat carries.\<close>

definition requestABC :: request where
  "requestABC =
     \<lparr>rq_sessionIds = [js ''S1''],
      rq_to = [js ''911234567890'', js ''Nobody'', js ''919876543210''],
      rq_text = Some (js ''hello''), rq_files = [], rq_mediaUrls = [],
      rq_delayMin = 0, rq_delayMax = 0\<rparr>"

section \<open>Webhook manager (services/webhookManager.js)\<close>

text \<open>A JSON value of a payload, and a payload as its fields in order.\<close>

datatype jsvalue = JNull | JStr jsstring | JNum int | JBool bool

type_synonym payload = "(string \<times> jsvalue) list"

text \<open>The two module-level tables: the \<open>registeredWebhooks\<close> map and the
  \<open>webhookUrls\<close> object read from the environment (an entry that is \<open>null\<close> is \<open>None\<close>).\<close>

record webhooks =
  registeredWebhooks :: "jsstring \<rightharpoonup> jsstring"
  webhookUrls :: "jsstring \<rightharpoonup> jsstring"

text \<open>\<open>registerWebhook\<close> throws on a falsy argument; \<open>unregisterWebhook\<close> deletes the key.\<close>

definition registerWebhook :: "webhooks \<Rightarrow> jsstring \<Rightarrow> jsstring \<Rightarrow> jsstring + webhooks" where
  "registerWebhook w eventType url =
     (if eventType = [] \<or> url = [] then Inl (js ''eventType and url are required'')
      else Inr (w\<lparr>registeredWebhooks := (registeredWebhooks w)(eventType \<mapsto> url)\<rparr>))"

definition unregisterWebhook :: "webhooks \<Rightarrow> jsstring \<Rightarrow> webhooks" where
  "unregisterWebhook w eventType =
     w\<lparr>registeredWebhooks := (registeredWebhooks w)(eventType := None)\<rparr>"

text \<open>What \<open>sendWebhook\<close> does to the outside: the POST (URL, the \<open>X-Webhook-Event\<close> header,
  body) and the two log lines.\<close>

datatype wh_effect =
    Post jsstring jsstring payload
  | LogSent jsstring jsstring
  | LogFailed jsstring jsstring

text \<open>The URL \<open>sendWebhook\<close> settles on: the registered one, else the one of the
  environment; \<open>None\<close> when both are falsy.\<close>

definition truthyUrl :: "jsstring option \<Rightarrow> jsstring option" where
  "truthyUrl u = (case u of None \<Rightarrow> None | Some s \<Rightarrow> if s = [] then None else Some s)"

definition webhookUrl :: "webhooks \<Rightarrow> jsstring \<Rightarrow> jsstring option" where
  "webhookUrl w eventType =
     (case truthyUrl (registeredWebhooks w eventType) of
        Some u \<Rightarrow> Some u
      | None \<Rightarrow> truthyUrl (webhookUrls w eventType))"

text \<open>
  \<open>sendWebhook(eventType, payload)\<close>. \<open>post\<close> is the outcome of \<open>axios.post\<close> with the
  5 second timeout: \<open>Inr ()\<close> when the promise resolves, \<open>Inl\<close> the message of the error
  when it rejects (unreachable host, timeout, error status). The first component of the
  result is how the function ends: \<open>Inr ()\<close> when it returns, \<open>Inl\<close> an error it would
  throw to its caller.
\<close>

definition sendWebhook ::
  "webhooks \<Rightarrow> (jsstring \<Rightarrow> jsstring \<Rightarrow> payload \<Rightarrow> jsstring + unit) \<Rightarrow> jsstring \<Rightarrow> payload
     \<Rightarrow> (jsstring + unit) \<times> wh_effect list" where
  "sendWebhook w post eventType body =
     (case webhookUrl w eventType of
        None \<Rightarrow> (Inr (), [])
      | Some url \<Rightarrow>
          (case post url eventType body of
             Inr u \<Rightarrow> (Inr (), [Post url eventType body, LogSent eventType url])
           | Inl msg \<Rightarrow> (Inr (), [Post url eventType body, LogFailed eventType msg])))"

text \<open>Two of the event senders; each awaits \<open>sendWebhook\<close> and returns.\<close>

definition notifySessionUpdate ::
  "webhooks \<Rightarrow> (jsstring \<Rightarrow> jsstring \<Rightarrow> payload \<Rightarrow> jsstring + unit)
     \<Rightarrow> jsstring \<Rightarrow> jsstring \<Rightarrow> jsvalue \<Rightarrow> jsstring
     \<Rightarrow> (jsstring + unit) \<times> wh_effect list" where
  "notifySessionUpdate w post sessionId st phoneNumber timestamp =
     sendWebhook w post (js ''session'')
       [(''event'', JStr (js ''session.update'')), (''sessionId'', JStr sessionId),
        (''status'', JStr st), (''phoneNumber'', phoneNumber), (''timestamp'', JStr timestamp)]"

definition notifyMessageDelivered ::
  "webhooks \<Rightarrow> (jsstring \<Rightarrow> jsstring \<Rightarrow> payload \<Rightarrow> jsstring + unit)
     \<Rightarrow> jsstring \<Rightarrow> jsstring \<Rightarrow> jsstring \<Rightarrow> jsstring
     \<Rightarrow> (jsstring + unit) \<times> wh_effect list" where
  "notifyMessageDelivered w post messageId st timestamp sessionId =
     sendWebhook w post (js ''delivery'')
       [(''event'', JStr (js ''message.delivered'')), (''messageId'', JStr messageId),
        (''status'', JStr st), (''timestamp'', JStr timestamp), (''sessionId'', JStr sessionId)]"

text \<open>The POSTs among the effects.\<close>

fun postsOf :: "wh_effect list \<Rightarrow> (jsstring \<times> jsstring \<times> payload) list" where
  "postsOf [] = []"
| "postsOf (Post url ev body # es) = (url, ev, body) # postsOf es"
| "postsOf (e # es) = postsOf es"

subsection \<open>Concrete inputs\<close>

definition noWebhooks :: webhooks where
  "noWebhooks = \<lparr>registeredWebhooks = Map.empty, webhookUrls = Map.empty\<rparr>"

definition sessionHook :: webhooks where
  "sessionHook =
     \<lparr>registeredWebhooks = [js ''session'' \<mapsto> js ''http://hooks.invalid/wa''],
      webhookUrls = Map.empty\<rparr>"

definition postTimesOut :: "jsstring \<Rightarrow> jsstring \<Rightarrow> payload \<Rightarrow> jsstring + unit" where
  "postTimesOut url ev body = Inl (js ''timeout of 5000ms exceeded'')"

section \<open>Session manager (services/waManager.js)\<close>

text \<open>The values the code writes to the \<open>status\<close> field of a session document.\<close>

datatype status =
    StPending | StQr | StAuthenticated | StConnected
  | StAuthFailed | StDisconnected | StNetworkError | StFailed

text \<open>The states from which only an explicit restore leads on.\<close>

definition terminal :: "status \<Rightarrow> bool" where
  "terminal st = (st = StAuthFailed \<or> st = StDisconnected \<or> st = StNetworkError \<or> st = StFailed)"

text \<open>A document of the session collection (models/session.js), without its key
  \<open>sessionId\<close>. \<open>userId\<close> is absent in a document that an upsert of an event handler
  creates.\<close>

record sessionDoc =
  d_userId :: "jsstring option"
  d_sessionName :: jsstring
  d_status :: status
  d_phoneNumber :: "jsstring option"
  d_qr :: "jsstring option"
  d_updatedAt :: int

text \<open>What reading \<open>client.info\<close> gives: nothing yet, the info object (with the phone number
  \<open>wid.user\<close>), or an exception, which the code guards against.\<close>

datatype probe = NoInfo | Info jsstring | InfoThrows jsstring

text \<open>
  The state the module works on. \<open>clients\<close> is the module-level map from session id to
  client; a client is named by the number of its construction, and \<open>handleCount\<close> counts
  the \<open>new Client\<close> executed so far. \<open>closures\<close> holds the \<open>userId\<close> and \<open>sessionId\<close> a
  client's event handlers were registered with, \<open>infoOf\<close> the \<open>info\<close> of each client,
  \<open>destroyed\<close> the clients whose \<open>destroy()\<close> has completed. \<open>sessions\<close> is the collection
  keyed by \<open>sessionId\<close>, \<open>authFolders\<close> the session ids with a folder
  \<open>.wwebjs_auth/session-<id>\<close>, \<open>clock\<close> the time in milliseconds, \<open>sessionUpdates\<close> the
  calls of \<open>notifySessionUpdate\<close>. The collection is taken to answer every query.
\<close>

record world =
  clients :: "jsstring \<rightharpoonup> nat"
  handleCount :: nat
  closures :: "nat \<rightharpoonup> jsstring option \<times> jsstring"
  infoOf :: "nat \<Rightarrow> probe"
  destroyed :: "nat list"
  sessions :: "jsstring \<rightharpoonup> sessionDoc"
  authFolders :: "jsstring set"
  clock :: int
  sessionUpdates :: "(jsstring \<times> status) list"

text \<open>\<open>findOneAndUpdate({sessionId}, update)\<close> without and with \<open>upsert\<close>; the upsert of a
  missing document starts from the defaults of the schema.\<close>

definition updateDoc :: "jsstring \<Rightarrow> (sessionDoc \<Rightarrow> sessionDoc) \<Rightarrow> world \<Rightarrow> world" where
  "updateDoc sessionId f w =
     (case sessions w sessionId of
        None \<Rightarrow> w
      | Some d \<Rightarrow> w\<lparr>sessions := (sessions w)(sessionId \<mapsto> f d)\<rparr>)"

definition schemaDefaults :: "world \<Rightarrow> sessionDoc" where
  "schemaDefaults w =
     \<lparr>d_userId = None, d_sessionName = [], d_status = StPending, d_phoneNumber = None,
      d_qr = None, d_updatedAt = clock w\<rparr>"

definition upsertDoc :: "jsstring \<Rightarrow> (sessionDoc \<Rightarrow> sessionDoc) \<Rightarrow> world \<Rightarrow> world" where
  "upsertDoc sessionId f w =
     (case sessions w sessionId of
        None \<Rightarrow> w\<lparr>sessions := (sessions w)(sessionId \<mapsto> f (schemaDefaults w))\<rparr>
      | Some d \<Rightarrow> w\<lparr>sessions := (sessions w)(sessionId \<mapsto> f d)\<rparr>)"

text \<open>
  The lifecycle events of a client and the handlers \<open>createClient\<close> registers for them.
  A handler works on the \<open>sessionId\<close> of its closure; each handler is taken as one step.
  \<open>ready\<close> comes with \<open>client.info\<close> set.
\<close>

datatype event =
    EvQr nat jsstring
  | EvAuthenticated nat
  | EvReady nat jsstring
  | EvAuthFailure nat
  | EvDisconnected nat

fun fire :: "event \<Rightarrow> world \<Rightarrow> world" where
  "fire (EvQr h code) w =
     (case closures w h of
        None \<Rightarrow> w
      | Some (userId, sessionId) \<Rightarrow>
          upsertDoc sessionId
            (\<lambda>d. d\<lparr>d_userId := (case userId of None \<Rightarrow> d_userId d | Some u \<Rightarrow> Some u),
                   d_qr := Some code, d_status := StQr, d_updatedAt := clock w\<rparr>) w)"
| "fire (EvAuthenticated h) w =
     (case closures w h of
        None \<Rightarrow> w
      | Some (userId, sessionId) \<Rightarrow>
          upsertDoc sessionId (\<lambda>d. d\<lparr>d_status := StAuthenticated, d_updatedAt := clock w\<rparr>) w)"
| "fire (EvReady h phone) w =
     (case closures w h of
        None \<Rightarrow> w
      | Some (userId, sessionId) \<Rightarrow>
          (let w1 = w\<lparr>infoOf := (infoOf w)(h := Info phone)\<rparr>;
               phoneNumber = (if phone = [] then js ''Unknown'' else phone);
               w2 = upsertDoc sessionId
                      (\<lambda>d. d\<lparr>d_status := StConnected, d_phoneNumber := Some phoneNumber,
                             d_qr := None, d_updatedAt := clock w\<rparr>) w1
           in w2\<lparr>sessionUpdates := sessionUpdates w2 @ [(sessionId, StConnected)]\<rparr>))"
| "fire (EvAuthFailure h) w =
     (case closures w h of
        None \<Rightarrow> w
      | Some (userId, sessionId) \<Rightarrow>
          (let w1 = updateDoc sessionId
                      (\<lambda>d. d\<lparr>d_status := StAuthFailed, d_updatedAt := clock w\<rparr>) w;
               w2 = w1\<lparr>clients := (clients w1)(sessionId := None)\<rparr>
           in w2\<lparr>sessionUpdates := sessionUpdates w2 @ [(sessionId, StAuthFailed)]\<rparr>))"
| "fire (EvDisconnected h) w =
     (case closures w h of
        None \<Rightarrow> w
      | Some (userId, sessionId) \<Rightarrow>
          (let w1 = updateDoc sessionId
                      (\<lambda>d. d\<lparr>d_status := StDisconnected, d_updatedAt := clock w\<rparr>) w;
               w2 = w1\<lparr>clients := (clients w1)(sessionId := None)\<rparr>
           in w2\<lparr>sessionUpdates := sessionUpdates w2 @ [(sessionId, StDisconnected)]\<rparr>))"

fun fireAll :: "event list \<Rightarrow> world \<Rightarrow> world" where
  "fireAll [] w = w"
| "fireAll (e # es) w = fireAll es (fire e w)"

text \<open>
  What the surroundings do during one call. A call is suspended at each \<open>await\<close>, and
  events of the clients may be delivered meanwhile: \<open>loadEvents\<close> while \<open>restoreSession\<close>
  reads the session document (line 464), \<open>lookupEvents\<close> while \<open>createClient\<close> reads it
  again (line 84), \<open>initEvents\<close> while \<open>client.initialize()\<close> races the 60 second
  timer (line 287), \<open>pollEvents\<close> during each one second delay of the polling loop, and
  \<open>displayEvents\<close> while \<open>getOrRestoreClient\<close> reads the document for its log line
  (line 524). \<open>initOutcome\<close> is how the race ends (\<open>None\<close>: it resolves; \<open>Some msg\<close>: it
  rejects with that message), \<open>localeString\<close> the time as \<open>toLocaleString\<close> prints it.
\<close>

record env =
  loadEvents :: "event list"
  lookupEvents :: "event list"
  initEvents :: "event list"
  initOutcome :: "jsstring option"
  pollEvents :: "nat \<Rightarrow> event list"
  displayEvents :: "event list"
  localeString :: jsstring

text \<open>The pool holds a client for the session and its \<open>info\<close> is set.\<close>

definition pooledReady :: "world \<Rightarrow> jsstring \<Rightarrow> nat option" where
  "pooledReady w sessionId =
     (case clients w sessionId of
        None \<Rightarrow> None
      | Some h \<Rightarrow> (case infoOf w h of Info p \<Rightarrow> Some h | NoInfo \<Rightarrow> None | InfoThrows e \<Rightarrow> None))"

text \<open>The guard at the head of \<open>createClient\<close> and of \<open>restoreSession\<close>: a pooled client
  whose \<open>info\<close> throws is deleted from the pool.\<close>

definition dropBroken :: "world \<Rightarrow> jsstring \<Rightarrow> world" where
  "dropBroken w sessionId =
     (case clients w sessionId of
        None \<Rightarrow> w
      | Some h \<Rightarrow>
          (case infoOf w h of
             InfoThrows e \<Rightarrow> w\<lparr>clients := (clients w)(sessionId := None)\<rparr>
           | Info p \<Rightarrow> w
           | NoInfo \<Rightarrow> w))"

text \<open>
  \<open>createClient\<close> in its steps; a step is what runs between two \<open>await\<close>s.
  \<open>createClient_check\<close> is lines 72 to 81: the pooled client is returned when it is ready
  (and \<open>createClient\<close> ends); a pooled client whose \<open>info\<close> throws is deleted; then the
  caller is suspended in the read of line 84. \<open>createClient_construct\<close> is lines 87 to
  281, run when the read is back: \<open>new Client\<close>, \<open>clients.set\<close>, the handlers and the
  call of \<open>client.initialize()\<close>; the pool is not looked at again. The constructor of the
  library is taken to succeed. \<open>createClient_end\<close> runs when the race of line 287 is
  over.
\<close>

definition createClient_check :: "world \<Rightarrow> jsstring \<Rightarrow> nat option \<times> world" where
  "createClient_check w sessionId =
     (case pooledReady w sessionId of
        Some existingClient \<Rightarrow> (Some existingClient, w)
      | None \<Rightarrow> (None, dropBroken w sessionId))"

definition createClient_construct ::
  "world \<Rightarrow> jsstring option \<Rightarrow> jsstring \<Rightarrow> nat \<times> world" where
  "createClient_construct w userId sessionId =
     (let client = handleCount w
      in (client,
          w\<lparr>handleCount := Suc client,
            closures := (closures w)(client \<mapsto> (userId, sessionId)),
            infoOf := (infoOf w)(client := NoInfo),
            clients := (clients w)(sessionId \<mapsto> client)\<rparr>))"

definition isNetworkError :: "jsstring \<Rightarrow> bool" where
  "isNetworkError msg =
     (includesStr msg (js ''ERR_INTERNET_DISCONNECTED'')
      \<or> includesStr msg (js ''ERR_NAME_NOT_RESOLVED'')
      \<or> includesStr msg (js ''net::''))"

definition createClient_end ::
  "jsstring option \<Rightarrow> world \<Rightarrow> jsstring \<Rightarrow> nat \<Rightarrow> (jsstring + nat) \<times> world" where
  "createClient_end outcome w sessionId client =
     (case outcome of
        None \<Rightarrow> (Inr client, w)
      | Some msg \<Rightarrow>
          (let w1 = updateDoc sessionId
                      (\<lambda>d. d\<lparr>d_status := (if isNetworkError msg then StNetworkError else StFailed),
                             d_updatedAt := clock w\<rparr>) w
           in (Inl msg, w1\<lparr>clients := (clients w1)(sessionId := None)\<rparr>)))"

definition createClient ::
  "env \<Rightarrow> world \<Rightarrow> jsstring option \<Rightarrow> jsstring \<Rightarrow> jsstring \<Rightarrow> (jsstring + nat) \<times> world" where
  "createClient e w userId sessionId sessionName =
     (case createClient_check w sessionId of
        (Some existingClient, w1) \<Rightarrow> (Inr existingClient, w1)
      | (None, w1) \<Rightarrow>
          (case createClient_construct (fireAll (lookupEvents e) w1) userId sessionId of
             (client, w2) \<Rightarrow>
               createClient_end (initOutcome e) (fireAll (initEvents e) w2) sessionId client))"

text \<open>
  \<open>startNewSession(userId, sessionName)\<close> with the \<open>uuid\<close> it draws: the two \<open>deleteMany\<close>,
  the \<open>create\<close> (which fails on a \<open>sessionId\<close> already in the collection), then
  \<open>await createClient\<close>; an error is logged and thrown on.
\<close>

definition staleDoc :: "jsstring \<Rightarrow> int \<Rightarrow> sessionDoc \<Rightarrow> bool" where
  "staleDoc userId t d =
     (d_userId d = Some userId
      \<and> ((d_status d = StDisconnected \<or> d_status d = StAuthFailed) \<and> d_updatedAt d < t - 3600000
         \<or> d_status d = StQr \<and> d_updatedAt d < t - 600000))"

definition purgeStale :: "jsstring \<Rightarrow> world \<Rightarrow> world" where
  "purgeStale userId w =
     w\<lparr>sessions := (\<lambda>k. case sessions w k of
                            None \<Rightarrow> None
                          | Some d \<Rightarrow> if staleDoc userId (clock w) d then None else Some d)\<rparr>"

definition startNewSession ::
  "env \<Rightarrow> world \<Rightarrow> jsstring \<Rightarrow> jsstring \<Rightarrow> jsstring \<Rightarrow> (jsstring + jsstring) \<times> world" where
  "startNewSession e w userId sessionName uuid =
     (let w1 = purgeStale userId w;
          sessionId = js ''session_'' @ uuid
      in case sessions w1 sessionId of
           Some d \<Rightarrow> (Inl (js ''E11000 duplicate key error''), w1)
         | None \<Rightarrow>
             (let w2 = w1\<lparr>sessions := (sessions w1)(sessionId \<mapsto>
                            \<lparr>d_userId = Some userId,
                             d_sessionName = (if sessionName = []
                                              then js ''Session '' @ localeString e
                                              else sessionName),
                             d_status = StPending, d_phoneNumber = None, d_qr = None,
                             d_updatedAt = clock w1\<rparr>)\<rparr>
              in case createClient e w2 (Some userId) sessionId sessionName of
                   (Inl msg, w3) \<Rightarrow> (Inl msg, w3)
                 | (Inr client, w3) \<Rightarrow> (Inr sessionId, w3)))"

text \<open>The polling loop: up to 30 attempts, one second apart; after them, whatever client
  the pool holds.\<close>

function waitReady :: "env \<Rightarrow> nat \<Rightarrow> world \<Rightarrow> jsstring \<Rightarrow> (jsstring + nat) \<times> world" where
  "waitReady e attempts w sessionId =
     (if attempts < 30
      then
        (let w1 = fireAll (pollEvents e attempts) (w\<lparr>clock := clock w + 1000\<rparr>) in
         case pooledReady w1 sessionId of
           Some client \<Rightarrow> (Inr client, w1)
         | None \<Rightarrow> waitReady e (Suc attempts) w1 sessionId)
      else
        (case clients w sessionId of
           Some client \<Rightarrow> (Inr client, w)
         | None \<Rightarrow> (Inl (js ''Failed to restore session: '' @ sessionId), w)))"
  by pat_completeness auto
termination
  by (relation "measure (\<lambda>(e, attempts, w, sessionId). 30 - attempts)") auto

text \<open>
  \<open>restoreSession\<close>. \<open>restoreSession_check\<close> is lines 450 to 461, on the trimmed id: the
  pooled client is returned when it is ready; a pooled client whose \<open>info\<close> throws is
  deleted. Then the document is read, \<open>createClient\<close> is awaited and the polling loop
  runs.
\<close>

definition restoreSession_check :: "world \<Rightarrow> jsstring \<Rightarrow> nat option \<times> world" where
  "restoreSession_check w sessionId =
     (case pooledReady w sessionId of
        Some client \<Rightarrow> (Some client, w)
      | None \<Rightarrow> (None, dropBroken w sessionId))"

definition restoreSession :: "env \<Rightarrow> world \<Rightarrow> jsstring \<Rightarrow> (jsstring + nat) \<times> world" where
  "restoreSession e w sessionId0 =
     (let sessionId = trim sessionId0 in
      case restoreSession_check w sessionId of
        (Some client, w1) \<Rightarrow> (Inr client, w1)
      | (None, w1) \<Rightarrow>
          (let w2 = fireAll (loadEvents e) w1 in
           case sessions w2 sessionId of
             None \<Rightarrow> (Inl (js ''Session '' @ sessionId @ js '' not found in database''), w2)
           | Some session \<Rightarrow>
               (case createClient e w2 (d_userId session) sessionId (d_sessionName session) of
                  (Inl msg, w3) \<Rightarrow> (Inl msg, w3)
                | (Inr client, w3) \<Rightarrow> waitReady e 0 w3 sessionId)))"

text \<open>
  Calls that overlap. A call of \<open>restoreSession\<close> is a task that stands at its entry, in
  the read of line 464 (\<open>AtLoad\<close>, with the trimmed id), in the read of line 84
  (\<open>AtLookup\<close>, with the \<open>userId\<close> of the document), in the race of line 287 (\<open>AtInit\<close>,
  with the client it constructed), before the polling loop (\<open>AtPoll\<close>: \<open>createClient\<close>
  returned the pooled client), or has ended. \<open>advance\<close> runs the step of the source that
  leads from one \<open>await\<close> to the next, on the same definitions as \<open>restoreSession\<close>. The
  steps after the construction (\<open>createClient_end\<close>, \<open>waitReady\<close>) construct nothing; the
  tasks are followed up to there. \<open>run n\<close> lets one task take \<open>n\<close> steps with nothing in
  between; \<open>advanceAll\<close> lets every task of a list take one step, in order, and \<open>rounds n\<close>
  does that \<open>n\<close> times.
\<close>

datatype task =
    AtEntry jsstring
  | AtLoad jsstring
  | AtLookup "jsstring option" jsstring
  | AtInit nat jsstring
  | AtPoll jsstring
  | Ended "jsstring + nat"

fun advance :: "task \<Rightarrow> world \<Rightarrow> task \<times> world" where
  "advance (AtEntry sessionId0) w =
     (case restoreSession_check w (trim sessionId0) of
        (Some client, w1) \<Rightarrow> (Ended (Inr client), w1)
      | (None, w1) \<Rightarrow> (AtLoad (trim sessionId0), w1))"
| "advance (AtLoad sessionId) w =
     (case sessions w sessionId of
        None \<Rightarrow> (Ended (Inl (js ''Session '' @ sessionId @ js '' not found in database'')), w)
      | Some session \<Rightarrow>
          (case createClient_check w sessionId of
             (Some existingClient, w1) \<Rightarrow> (AtPoll sessionId, w1)
           | (None, w1) \<Rightarrow> (AtLookup (d_userId session) sessionId, w1)))"
| "advance (AtLookup userId sessionId) w =
     (case createClient_construct w userId sessionId of
        (client, w1) \<Rightarrow> (AtInit client sessionId, w1))"
| "advance (AtInit client sessionId) w = (AtInit client sessionId, w)"
| "advance (AtPoll sessionId) w = (AtPoll sessionId, w)"
| "advance (Ended r) w = (Ended r, w)"

fun run :: "nat \<Rightarrow> task \<Rightarrow> world \<Rightarrow> task \<times> world" where
  "run 0 t w = (t, w)"
| "run (Suc n) t w = (case advance t w of (t1, w1) \<Rightarrow> run n t1 w1)"



text \<open>\<open>getOrRestoreClient\<close>: the pooled client when it is ready, else \<open>restoreSession\<close>; the
  client restored must have \<open>info\<close>; every error is wrapped.\<close>

definition notAvailable :: "jsstring \<Rightarrow> jsstring \<Rightarrow> jsstring" where
  "notAvailable sessionId msg = js ''Session '' @ sessionId @ js '' is not available. '' @ msg"

definition getOrRestoreClient :: "env \<Rightarrow> world \<Rightarrow> jsstring \<Rightarrow> (jsstring + nat) \<times> world" where
  "getOrRestoreClient e w sessionId0 =
     (let sessionId = trim sessionId0 in
      case pooledReady w sessionId of
        Some client \<Rightarrow> (Inr client, fireAll (displayEvents e) w)
      | None \<Rightarrow>
          (case restoreSession e w sessionId of
             (Inl msg, w1) \<Rightarrow> (Inl (notAvailable sessionId msg), w1)
           | (Inr restoredClient, w1) \<Rightarrow>
               (case infoOf w1 restoredClient of
                  Info p \<Rightarrow> (Inr restoredClient, w1)
                | NoInfo \<Rightarrow>
                    (Inl (notAvailable sessionId
                            (js ''Session '' @ sessionId
                             @ js '' restored but not connected to WhatsApp. Please scan QR code or use an active session.'')),
                     w1)
                | InfoThrows msg \<Rightarrow> (Inl (notAvailable sessionId msg), w1))))"

text \<open>
  \<open>deleteSession(sessionId)\<close>. \<open>destroyOutcome\<close> is how \<open>client.destroy()\<close> ends and
  \<open>rmOutcome\<close> how \<open>fs.rmSync\<close> ends (\<open>None\<close>: normally; \<open>Some msg\<close>: with an error,
  which the code catches and logs). The result is the deleted document, or \<open>None\<close> for
  \<open>null\<close>.
\<close>

definition deleteSession ::
  "jsstring option \<Rightarrow> jsstring option \<Rightarrow> world \<Rightarrow> jsstring \<Rightarrow> sessionDoc option \<times> world" where
  "deleteSession destroyOutcome rmOutcome w sessionId =
     (let w1 = (case clients w sessionId of
                  None \<Rightarrow> w
                | Some client \<Rightarrow>
                    (case destroyOutcome of
                       None \<Rightarrow> w\<lparr>destroyed := destroyed w @ [client],
                                 clients := (clients w)(sessionId := None)\<rparr>
                     | Some msg \<Rightarrow> w));
          result = sessions w1 sessionId;
          w2 = w1\<lparr>sessions := (sessions w1)(sessionId := None)\<rparr>;
          w3 = (if sessionId \<in> authFolders w2
                then (case rmOutcome of
                        None \<Rightarrow> w2\<lparr>authFolders := authFolders w2 - {sessionId}\<rparr>
                      | Some msg \<Rightarrow> w2)
                else w2)
      in (result, w3))"

text \<open>\<open>clearAllSessions\<close> for one pooled client: \<open>destroy()\<close> in a \<open>try\<close> whose \<open>catch\<close> is
  empty, then \<open>clients.delete(id)\<close> after it.\<close>

definition clearClient :: "jsstring option \<Rightarrow> world \<Rightarrow> jsstring \<Rightarrow> world" where
  "clearClient destroyOutcome w sessionId =
     (case clients w sessionId of
        None \<Rightarrow> w
      | Some client \<Rightarrow>
          (let w1 = (case destroyOutcome of
                       None \<Rightarrow> w\<lparr>destroyed := destroyed w @ [client]\<rparr>
                     | Some msg \<Rightarrow> w)
           in w1\<lparr>clients := (clients w1)(sessionId := None)\<rparr>))"

text \<open>\<open>deleteSessionController\<close>: 404 for a result that is \<open>null\<close>, else the success body.\<close>

datatype httpResponse = NotFound404 jsstring | Ok200 jsstring jsstring

definition deleteSessionController ::
  "jsstring option \<Rightarrow> jsstring option \<Rightarrow> world \<Rightarrow> jsstring \<Rightarrow> httpResponse \<times> world" where
  "deleteSessionController destroyOutcome rmOutcome w sessionId =
     (case deleteSession destroyOutcome rmOutcome w sessionId of
        (None, w1) \<Rightarrow> (NotFound404 (js ''Session not found''), w1)
      | (Some d, w1) \<Rightarrow> (Ok200 (js ''Session deleted successfully'') sessionId, w1))"

subsection \<open>Concrete inputs\<close>

text \<open>A stored session \<open>s1\<close> with an empty pool; the same with a client pooled that is
  still initializing; the same with that client ready. An environment in which
  \<open>initialize\<close> loses the race against the timer.\<close>

definition connectedDoc :: sessionDoc where
  "connectedDoc =
     \<lparr>d_userId = Some (js ''u1''), d_sessionName = js ''Sales'', d_status = StConnected,
      d_phoneNumber = Some (js ''911234567890''), d_qr = None, d_updatedAt = 0\<rparr>"

definition worldStored :: world where
  "worldStored =
     \<lparr>clients = Map.empty, handleCount = 0, closures = Map.empty, infoOf = (\<lambda>h. NoInfo),
      destroyed = [], sessions = [js ''s1'' \<mapsto> connectedDoc], authFolders = {js ''s1''},
      clock = 0, sessionUpdates = []\<rparr>"

definition worldPooled :: world where
  "worldPooled =
     worldStored\<lparr>clients := [js ''s1'' \<mapsto> 0], handleCount := 1,
                 closures := [0 \<mapsto> (Some (js ''u1''), js ''s1'')]\<rparr>"


definition envTimeout :: env where
  "envTimeout =
     \<lparr>loadEvents = [], lookupEvents = [], initEvents = [],
      initOutcome = Some (js ''Initialization timeout after 60s''),
      pollEvents = (\<lambda>n. []), displayEvents = [],
      localeString = js ''1/1/2026, 9:00:00 AM''\<rparr>"


section \<open>Properties of the recipient resolver\<close>









lemma group_token_shape:
  "includesStr (js ''120363041234567890@g.us'') (js ''@g.us'')"
  by (simp add: js_def)

lemma dash_token_shape:
  "\<not> includesStr (js ''1203630-1588'') (js ''@g.us'')
   \<and> \<not> includesStr (js ''1203630-1588'') (js ''@c.us'')
   \<and> includesStr (js ''1203630-1588'') (js ''-'')"
  by (simp add: js_def)

lemma phone_token_shape:
  "\<not> includesStr (js ''+91 98765 43210'') (js ''@g.us'')
   \<and> \<not> includesStr (js ''+91 98765 43210'') (js ''@c.us'')
   \<and> \<not> includesStr (js ''+91 98765 43210'') (js ''-'')
   \<and> length (filter isDigit (js ''+91 98765 43210'')) \<ge> 10
   \<and> filter isDigit (js ''+91 98765 43210'')
       = filter (\<lambda>c. \<not> isSeparator c) (js ''+91 98765 43210'')"
  by (simp add: js_def isDigit_def isSeparator_def isSpace_def)

lemma phone_token_digits: "filter isDigit (js ''+91 98765 43210'') = js ''919876543210''"
  by (simp add: js_def isDigit_def)

text \<open>
  C4: the first three shapes are string transforms tried in this order, first match wins.
  A token that contains \<open>@g.us\<close> or \<open>@c.us\<close> is returned unchanged with \<open>name\<close> null; else a
  token that contains a dash gets \<open>@g.us\<close> appended; else a token whose digits-only form
  has length at least 10 and equals the token without white space, dashes and plus signs
  gets that digit string with \<open>@c.us\<close>. In each case the result is the same for every lower-case
  function \<open>lc\<close> and every behaviour \<open>g\<close> of the client, and no call is made to the client
  (the count is 0).
\<close>

theorem resolveRecipient_shapes:
  "(includesStr r (js ''@g.us'') \<or> includesStr r (js ''@c.us'') \<longrightarrow>
      resolveRecipient lc g r =
        (\<lparr>r_id = Some r, r_name = None, r_found = None, r_partialMatch = False,
          r_error = None\<rparr>, 0))
   \<and> (\<not> includesStr r (js ''@g.us'') \<and> \<not> includesStr r (js ''@c.us'')
        \<and> includesStr r (js ''-'') \<longrightarrow>
      resolveRecipient lc g r =
        (\<lparr>r_id = Some (r @ js ''@g.us''), r_name = None, r_found = None,
          r_partialMatch = False, r_error = None\<rparr>, 0))
   \<and> (\<not> includesStr r (js ''@g.us'') \<and> \<not> includesStr r (js ''@c.us'')
        \<and> \<not> includesStr r (js ''-'')
        \<and> length (filter isDigit r) \<ge> 10
        \<and> filter isDigit r = filter (\<lambda>c. \<not> isSeparator c) r \<longrightarrow>
      resolveRecipient lc g r =
        (\<lparr>r_id = Some (filter isDigit r @ js ''@c.us''), r_name = None, r_found = None,
          r_partialMatch = False, r_error = None\<rparr>, 0))"
  by (auto simp: resolveRecipient_def passThrough_def Let_def)

theorem resolveRecipient_shapes_witness:
  "includesStr (js ''120363041234567890@g.us'') (js ''@g.us'')
   \<and> resolveRecipient asciiLower (Inl (js ''offline'')) (js ''120363041234567890@g.us'')
       = (\<lparr>r_id = Some (js ''120363041234567890@g.us''), r_name = None, r_found = None,
           r_partialMatch = False, r_error = None\<rparr>, 0)
   \<and> includesStr (js ''1203630-1588'') (js ''-'')
   \<and> resolveRecipient asciiLower (Inl (js ''offline'')) (js ''1203630-1588'')
       = (\<lparr>r_id = Some (js ''1203630-1588'' @ js ''@g.us''), r_name = None, r_found = None,
           r_partialMatch = False, r_error = None\<rparr>, 0)
   \<and> length (filter isDigit (js ''+91 98765 43210'')) \<ge> 10
   \<and> resolveRecipient asciiLower (Inl (js ''offline'')) (js ''+91 98765 43210'')
       = (\<lparr>r_id = Some (js ''919876543210'' @ js ''@c.us''), r_name = None, r_found = None,
           r_partialMatch = False, r_error = None\<rparr>, 0)"
proof -
  let ?g = "Inl (js ''offline'') :: jsstring + chat list"
  have a: "resolveRecipient asciiLower ?g (js ''120363041234567890@g.us'')
       = (\<lparr>r_id = Some (js ''120363041234567890@g.us''), r_name = None, r_found = None,
           r_partialMatch = False, r_error = None\<rparr>, 0)"
    using resolveRecipient_shapes [of "js ''120363041234567890@g.us''" asciiLower ?g]
      group_token_shape by blast
  have b: "resolveRecipient asciiLower ?g (js ''1203630-1588'')
       = (\<lparr>r_id = Some (js ''1203630-1588'' @ js ''@g.us''), r_name = None, r_found = None,
           r_partialMatch = False, r_error = None\<rparr>, 0)"
    using resolveRecipient_shapes [of "js ''1203630-1588''" asciiLower ?g]
      dash_token_shape by blast
  have c: "resolveRecipient asciiLower ?g (js ''+91 98765 43210'')
       = (\<lparr>r_id = Some (filter isDigit (js ''+91 98765 43210'') @ js ''@c.us''),
           r_name = None, r_found = None, r_partialMatch = False, r_error = None\<rparr>, 0)"
    using resolveRecipient_shapes [of "js ''+91 98765 43210''" asciiLower ?g]
      phone_token_shape by blast
  show ?thesis
    using a b c [unfolded phone_token_digits] group_token_shape dash_token_shape
      phone_token_shape
    by blast
qed

section \<open>Properties of the batch loop\<close>

lemma bappend_empty [simp]: "bappend st bempty = st" "bappend bempty st = st"
  by (simp_all add: bappend_def bempty_def)

lemma bappend_assoc: "bappend (bappend a b) c = bappend a (bappend b c)"
  by (simp add: bappend_def)

lemma bappend_sel:
  "results (bappend a b) = results a @ results b"
  "effects (bappend a b) = effects a @ effects b"
  "messageCount (bappend a b) = messageCount a + messageCount b"
  by (simp_all add: bappend_def)

lemma bappend_effects_upd:
  "(bappend st d)\<lparr>effects := effects (bappend st d) @ x\<rparr> = bappend st (d\<lparr>effects := effects d @ x\<rparr>)"
  by (simp add: bappend_def)

lemma bappend_results_upd:
  "(bappend st d)\<lparr>results := results (bappend st d) @ x\<rparr> = bappend st (d\<lparr>results := results d @ x\<rparr>)"
  by (simp add: bappend_def)

lemma bappend_count_upd:
  "(bappend st d)\<lparr>messageCount := Suc (messageCount (bappend st d))\<rparr>
     = bappend st (d\<lparr>messageCount := Suc (messageCount d)\<rparr>)"
  by (simp add: bappend_def)

lemma sendItems_append:
  "sendItems P ri si k s rid items (bappend st d) =
     (case sendItems P ri si k s rid items d of
        Inl (m, d') \<Rightarrow> Inl (m, bappend st d')
      | Inr d' \<Rightarrow> Inr (bappend st d'))"
proof (induction items arbitrary: k d)
  case Nil
  show ?case by simp
next
  case (Cons it items)
  obtain c e where it: "it = (c, e)" by (cases it)
  let ?d1 = "d\<lparr>effects := effects d @ [SendMessage s rid c]\<rparr>"
  show ?case
  proof (cases "p_sendMessage P ri si k rid c")
    case (Inl m)
    then show ?thesis
      unfolding it by (simp add: Let_def bappend_effects_upd)
  next
    case (Inr mid)
    let ?d2 = "?d1\<lparr>messageCount := Suc (messageCount ?d1),
                    results := results ?d1 @ [e\<lparr>e_messageId := Some mid\<rparr>]\<rparr>"
    have up: "(bappend st ?d1)\<lparr>messageCount := Suc (messageCount (bappend st ?d1)),
                 results := results (bappend st ?d1) @ [e\<lparr>e_messageId := Some mid\<rparr>]\<rparr>
              = bappend st ?d2"
      by (simp add: bappend_def)
    have l: "sendItems P ri si k s rid (it # items) (bappend st d)
           = sendItems P ri si (Suc k) s rid items (bappend st ?d2)"
      unfolding it sendItems.simps Let_def bappend_effects_upd Inr sum.case up ..
    have r: "sendItems P ri si k s rid (it # items) d
           = sendItems P ri si (Suc k) s rid items ?d2"
      unfolding it sendItems.simps Let_def Inr sum.case ..
    show ?thesis unfolding l r by (rule Cons.IH)
  qed
qed

lemma processPair_append:
  "processPair P lc rq media ri si r s st = bappend st (processPair P lc rq media ri si r s bempty)"
proof -
  obtain res calls where rc: "resolveRecipient lc (p_getChats P ri si) r = (res, calls)"
    by (cases "resolveRecipient lc (p_getChats P ri si) r")
  define x where "x = Resolve s r # (if calls = 0 then [] else [GetChats s])"
  define d1 where "d1 = bempty\<lparr>effects := x\<rparr>"
  have st1: "st\<lparr>effects := effects st @ x\<rparr> = bappend st d1"
    by (simp add: bappend_def bempty_def d1_def)
  have b1: "bempty\<lparr>effects := effects bempty @ x\<rparr> = d1"
    by (simp add: bempty_def d1_def)
  have nf: "\<And>m. (bappend st d1)\<lparr>results := results (bappend st d1) @ m\<rparr>
               = bappend st (d1\<lparr>results := results d1 @ m\<rparr>)"
    by (rule bappend_results_upd)
  show ?thesis
  proof (cases "r_id res")
    case None
    then show ?thesis
      unfolding processPair_def rc Let_def prod.case x_def[symmetric] st1 b1
      by (simp add: nf)
  next
    case (Some rid)
    show ?thesis
    proof (cases "rid = []")
      case True
      then show ?thesis
        unfolding processPair_def rc Let_def prod.case x_def[symmetric] st1 b1 Some
        by (simp add: nf)
    next
      case False
      define g where "g = (case r_name res of None \<Rightarrow> r | Some n \<Rightarrow> if n = [] then r else n)"
      define items where "items = pairItems rq media s rid r g"
      show ?thesis
      proof (cases "sendItems P ri si 0 s rid items d1")
        case (Inl md)
        obtain m d' where md: "md = (m, d')" by (cases md)
        have "sendItems P ri si 0 s rid items (bappend st d1) = Inl (m, bappend st d')"
          by (simp add: sendItems_append Inl md)
        then show ?thesis
          unfolding processPair_def rc Let_def prod.case x_def[symmetric] st1 b1 Some
            g_def[symmetric]
          using False Inl md by (simp add: bappend_results_upd items_def)
      next
        case (Inr d')
        have "sendItems P ri si 0 s rid items (bappend st d1) = Inr (bappend st d')"
          by (simp add: sendItems_append Inr)
        then show ?thesis
          unfolding processPair_def rc Let_def prod.case x_def[symmetric] st1 b1 Some
            g_def[symmetric]
          using False Inr by (simp add: bappend_effects_upd items_def)
      qed
    qed
  qed
qed

lemma sessionsLoop_append:
  "sessionsLoop P lc rq media cm ri r si ss st
     = bappend st (sessionsLoop P lc rq media cm ri r si ss bempty)"
proof (induction ss arbitrary: si st)
  case Nil
  show ?case by simp
next
  case (Cons s ss)
  show ?case
  proof (cases "cm s")
    case None
    then show ?thesis using Cons.IH[of "Suc si" st] by simp
  next
    case (Some c)
    have "sessionsLoop P lc rq media cm ri r si (s # ss) st
        = sessionsLoop P lc rq media cm ri r (Suc si) ss (processPair P lc rq media ri si r s st)"
      using Some by simp
    also have "\<dots> = bappend (processPair P lc rq media ri si r s st)
                       (sessionsLoop P lc rq media cm ri r (Suc si) ss bempty)"
      by (rule Cons.IH)
    also have "\<dots> = bappend st (bappend (processPair P lc rq media ri si r s bempty)
                       (sessionsLoop P lc rq media cm ri r (Suc si) ss bempty))"
      by (subst processPair_append) (simp add: bappend_assoc)
    also have "\<dots> = bappend st (sessionsLoop P lc rq media cm ri r si (s # ss) bempty)"
      using Some Cons.IH[of "Suc si" "processPair P lc rq media ri si r s bempty"] by simp
    finally show ?thesis .
  qed
qed

lemma recipientsLoop_append:
  "recipientsLoop P lc rq media cm ri rs st
     = bappend st (recipientsLoop P lc rq media cm ri rs bempty)"
proof (induction rs arbitrary: ri st)
  case Nil
  show ?case by simp
next
  case (Cons r rs)
  let ?S = "\<lambda>st. sessionsLoop P lc rq media cm ri r 0 (rq_sessionIds rq) st"
  have "recipientsLoop P lc rq media cm ri (r # rs) st
      = bappend (?S st) (recipientsLoop P lc rq media cm (Suc ri) rs bempty)"
    using Cons.IH[of "Suc ri" "?S st"] by simp
  also have "\<dots> = bappend st (bappend (?S bempty) (recipientsLoop P lc rq media cm (Suc ri) rs bempty))"
    by (subst sessionsLoop_append) (simp add: bappend_assoc)
  also have "\<dots> = bappend st (recipientsLoop P lc rq media cm ri (r # rs) bempty)"
    using Cons.IH[of "Suc ri" "?S bempty"] by simp
  finally show ?case .
qed

lemma pairsOf_append: "pairsOf (xs @ ys) = pairsOf xs @ pairsOf ys"
  by (induction xs rule: pairsOf.induct) simp_all

lemma sleepsOf_append: "sleepsOf (xs @ ys) = sleepsOf xs @ sleepsOf ys"
  by (induction xs rule: sleepsOf.induct) simp_all

lemma sendItems_pairs:
  "(sendItems P ri si k s rid items st = Inl (m, st') \<longrightarrow> pairsOf (effects st') = pairsOf (effects st))
   \<and> (sendItems P ri si k s rid items st = Inr st'' \<longrightarrow> pairsOf (effects st'') = pairsOf (effects st))"
proof (induction items arbitrary: k st)
  case Nil
  show ?case by simp
next
  case (Cons it items)
  obtain c e where it: "it = (c, e)" by (cases it)
  show ?case
  proof (cases "p_sendMessage P ri si k rid c")
    case (Inl x)
    then show ?thesis unfolding it by (auto simp: Let_def pairsOf_append)
  next
    case (Inr mid)
    let ?st2 = "st\<lparr>effects := effects st @ [SendMessage s rid c],
                   messageCount := Suc (messageCount st),
                   results := results st @ [e\<lparr>e_messageId := Some mid\<rparr>]\<rparr>"
    have step: "sendItems P ri si k s rid (it # items) st = sendItems P ri si (Suc k) s rid items ?st2"
      unfolding it by (simp add: Let_def Inr)
    have "pairsOf (effects ?st2) = pairsOf (effects st)" by (simp add: pairsOf_append)
    then show ?thesis unfolding step using Cons.IH[of "Suc k" ?st2] by simp
  qed
qed

lemma sendItems_sleeps:
  "(sendItems P ri si k s rid items st = Inl (m, st') \<longrightarrow> sleepsOf (effects st') = sleepsOf (effects st))
   \<and> (sendItems P ri si k s rid items st = Inr st'' \<longrightarrow> sleepsOf (effects st'') = sleepsOf (effects st))"
proof (induction items arbitrary: k st)
  case Nil
  show ?case by simp
next
  case (Cons it items)
  obtain c e where it: "it = (c, e)" by (cases it)
  show ?case
  proof (cases "p_sendMessage P ri si k rid c")
    case (Inl x)
    then show ?thesis unfolding it by (auto simp: Let_def sleepsOf_append)
  next
    case (Inr mid)
    let ?st2 = "st\<lparr>effects := effects st @ [SendMessage s rid c],
                   messageCount := Suc (messageCount st),
                   results := results st @ [e\<lparr>e_messageId := Some mid\<rparr>]\<rparr>"
    have step: "sendItems P ri si k s rid (it # items) st = sendItems P ri si (Suc k) s rid items ?st2"
      unfolding it by (simp add: Let_def Inr)
    have "sleepsOf (effects ?st2) = sleepsOf (effects st)" by (simp add: sleepsOf_append)
    then show ?thesis unfolding step using Cons.IH[of "Suc k" ?st2] by simp
  qed
qed

lemma sendItems_Inr_iff:
  "(\<exists>st'. sendItems P ri si k s rid items st = Inr st')
     \<longleftrightarrow> (\<forall>j<length items. \<exists>m. p_sendMessage P ri si (k + j) rid (fst (items ! j)) = Inr m)"
proof (induction items arbitrary: k st)
  case Nil
  show ?case by simp
next
  case (Cons it items)
  obtain c e where it: "it = (c, e)" by (cases it)
  show ?case
  proof (cases "p_sendMessage P ri si k rid c")
    case (Inl x)
    have "\<not> (\<exists>m. p_sendMessage P ri si (k + 0) rid (fst ((it # items) ! 0)) = Inr m)"
      using Inl it by simp
    then have "\<not> (\<forall>j<length (it # items). \<exists>m. p_sendMessage P ri si (k + j) rid (fst ((it # items) ! j)) = Inr m)"
      by (metis length_greater_0_conv list.distinct(1))
    moreover have "\<not> (\<exists>st'. sendItems P ri si k s rid (it # items) st = Inr st')"
      unfolding it using Inl by (simp add: Let_def)
    ultimately show ?thesis by blast
  next
    case (Inr mid)
    let ?st2 = "st\<lparr>effects := effects st @ [SendMessage s rid c],
                   messageCount := Suc (messageCount st),
                   results := results st @ [e\<lparr>e_messageId := Some mid\<rparr>]\<rparr>"
    have step: "sendItems P ri si k s rid (it # items) st = sendItems P ri si (Suc k) s rid items ?st2"
      unfolding it by (simp add: Let_def Inr)
    have "(\<forall>j<length (it # items). \<exists>m. p_sendMessage P ri si (k + j) rid (fst ((it # items) ! j)) = Inr m)
       \<longleftrightarrow> (\<forall>j<length items. \<exists>m. p_sendMessage P ri si (Suc k + j) rid (fst (items ! j)) = Inr m)"
      using Inr it by (auto simp: less_Suc_eq_0_disj)
    then show ?thesis unfolding step using Cons.IH[of "Suc k" ?st2] by simp
  qed
qed

lemma sendItems_first_failure:
  assumes "j < length items"
    and "p_sendMessage P ri si (k + j) rid (fst (items ! j)) = Inl msg"
    and "\<forall>i<j. \<exists>m. p_sendMessage P ri si (k + i) rid (fst (items ! i)) = Inr m"
  shows "\<exists>st'. sendItems P ri si k s rid items st = Inl (msg, st')"
  using assms
proof (induction items arbitrary: k st j)
  case Nil
  then show ?case by simp
next
  case (Cons it items)
  obtain c e where it: "it = (c, e)" by (cases it)
  show ?case
  proof (cases j)
    case 0
    then have "p_sendMessage P ri si k rid c = Inl msg" using Cons.prems(2) it by simp
    then show ?thesis unfolding it by (simp add: Let_def)
  next
    case (Suc j')
    from Cons.prems(3) Suc have "\<exists>m. p_sendMessage P ri si (k + 0) rid (fst ((it # items) ! 0)) = Inr m"
      by blast
    then obtain mid where mid: "p_sendMessage P ri si k rid c = Inr mid" using it by auto
    let ?st2 = "st\<lparr>effects := effects st @ [SendMessage s rid c],
                   messageCount := Suc (messageCount st),
                   results := results st @ [e\<lparr>e_messageId := Some mid\<rparr>]\<rparr>"
    have step: "sendItems P ri si k s rid (it # items) st = sendItems P ri si (Suc k) s rid items ?st2"
      unfolding it by (simp add: Let_def mid)
    have a: "j' < length items" using Cons.prems(1) Suc by simp
    have b: "p_sendMessage P ri si (Suc k + j') rid (fst (items ! j')) = Inl msg"
      using Cons.prems(2) Suc by simp
    have c: "\<forall>i<j'. \<exists>m. p_sendMessage P ri si (Suc k + i) rid (fst (items ! i)) = Inr m"
    proof (intro allI impI)
      fix i assume "i < j'"
      then have "Suc i < j" using Suc by simp
      with Cons.prems(3) have "\<exists>m. p_sendMessage P ri si (k + Suc i) rid (fst ((it # items) ! Suc i)) = Inr m"
        by blast
      then show "\<exists>m. p_sendMessage P ri si (Suc k + i) rid (fst (items ! i)) = Inr m" by simp
    qed
    show ?thesis unfolding step by (rule Cons.IH[OF a b c])
  qed
qed

lemma pairItems_contents:
  "map fst (pairItems rq media s rid r g) = pairContents rq media"
  by (simp add: pairContents_def pairItems_def localItems_def remoteItems_def
      split: option.splits prod.splits) 

lemma pairItems_nth:
  "k < length (pairContents rq media) \<Longrightarrow> fst (pairItems rq media s rid r g ! k) = pairContents rq media ! k"
  by (metis pairItems_contents length_map nth_map)

lemma pairItems_length:
  "length (pairItems rq media s rid r g) = length (pairContents rq media)"
  by (metis pairItems_contents length_map)


lemma processPair_pairs0:
  "pairsOf (effects (processPair P lc rq media ri si r s bempty)) = [(r, s)]"
proof -
  obtain res calls where rc: "resolveRecipient lc (p_getChats P ri si) r = (res, calls)"
    by (cases "resolveRecipient lc (p_getChats P ri si) r")
  define d1 where "d1 = bempty\<lparr>effects := effects bempty @ Resolve s r # (if calls = 0 then [] else [GetChats s])\<rparr>"
  have p1: "pairsOf (effects d1) = [(r, s)]" by (simp add: d1_def bempty_def)
  show ?thesis
  proof (cases "r_id res")
    case None
    then show ?thesis using p1
      unfolding processPair_def rc Let_def prod.case d1_def[symmetric] by simp
  next
    case (Some rid)
    show ?thesis
    proof (cases "rid = []")
      case True
      then show ?thesis using p1 Some
        unfolding processPair_def rc Let_def prod.case d1_def[symmetric] by simp
    next
      case False
      define items where "items = pairItems rq media s rid r (case r_name res of None \<Rightarrow> r | Some n \<Rightarrow> if n = [] then r else n)"
      show ?thesis
      proof (cases "sendItems P ri si 0 s rid items d1")
        case (Inl md)
        obtain m d' where md: "md = (m, d')" by (cases md)
        have "pairsOf (effects d') = [(r, s)]"
          using sendItems_pairs[of P ri si 0 s rid items d1 m d'] Inl md p1 by simp
        then show ?thesis using False Some Inl md
          unfolding processPair_def rc Let_def prod.case d1_def[symmetric] items_def
          by simp
      next
        case (Inr d')
        have "pairsOf (effects d') = [(r, s)]"
          using sendItems_pairs[of P ri si 0 s rid items d1 _ _ d'] Inr p1 by simp
        then show ?thesis using False Some Inr
          unfolding processPair_def rc Let_def prod.case d1_def[symmetric] items_def
          by (simp add: pairsOf_append)
      qed
    qed
  qed
qed

lemma processPair_pairs:
  "pairsOf (effects (processPair P lc rq media ri si r s st)) = pairsOf (effects st) @ [(r, s)]"
  by (subst processPair_append) (simp add: bappend_sel pairsOf_append processPair_pairs0)

lemma sessionsLoop_pairs:
  "pairsOf (effects (sessionsLoop P lc rq media cm ri r si ss st))
     = pairsOf (effects st) @ map (Pair r) (filter (\<lambda>s. cm s \<noteq> None) ss)"
proof (induction ss arbitrary: si st)
  case Nil
  show ?case by simp
next
  case (Cons s ss)
  show ?case
  proof (cases "cm s")
    case None
    then show ?thesis using Cons.IH[of "Suc si" st] by simp
  next
    case (Some c)
    then show ?thesis
      using Cons.IH[of "Suc si" "processPair P lc rq media ri si r s st"]
      by (simp add: processPair_pairs)
  qed
qed

lemma recipientsLoop_pairs:
  "pairsOf (effects (recipientsLoop P lc rq media cm ri rs st))
     = pairsOf (effects st)
       @ List.product rs (filter (\<lambda>s. cm s \<noteq> None) (rq_sessionIds rq))"
proof (induction rs arbitrary: ri st)
  case Nil
  show ?case by simp
next
  case (Cons r rs)
  show ?case
    using Cons.IH[of "Suc ri" "sessionsLoop P lc rq media cm ri r 0 (rq_sessionIds rq) st"]
    by (simp add: sessionsLoop_pairs)
qed

lemma sendBatchMessage_run:
  assumes "validRequest rq" and "fetchRemote P 0 (rq_mediaUrls rq) [] = Inr media"
  shows "sendBatchMessage P lc rq =
     (let st = recipientsLoop P lc rq media (clientMapOf P rq) 0 (rq_to rq)
                \<lparr>results = snd (prepareClients P 0 (rq_sessionIds rq) (Map.empty, [])),
                 effects = [], messageCount = 0\<rparr>
      in (Success (length (results st)) (results st), effects st))"
  using assms
  by (auto simp: sendBatchMessage_def validRequest_def clientMapOf_def Let_def split: prod.splits)

lemma batch_pairs:
  assumes "validRequest rq" and "fetchRemote P 0 (rq_mediaUrls rq) [] = Inr media"
  shows "pairsOf (snd (sendBatchMessage P lc rq))
     = List.product (rq_to rq) (filter (\<lambda>s. clientMapOf P rq s \<noteq> None) (rq_sessionIds rq))"
  by (simp add: sendBatchMessage_run[OF assms] Let_def recipientsLoop_pairs)






lemma randomDelay_range:
  assumes "0 \<le> u" and "u < 1" and "mn \<le> mx"
  shows "mn \<le> randomDelay mn mx u \<and> randomDelay mn mx u \<le> mx"
proof -
  let ?n = "mx - mn + 1"
  have n: "0 < real_of_int ?n" using assms(3) by simp
  have lo: "0 \<le> u * real_of_int ?n" using assms(1) n by simp
  have hi: "u * real_of_int ?n < real_of_int ?n"
    using assms(2) n by simp
  have "0 \<le> \<lfloor>u * real_of_int ?n\<rfloor>" using lo by simp
  moreover have "\<lfloor>u * real_of_int ?n\<rfloor> < ?n" unfolding floor_less_iff using hi .
  ultimately show ?thesis unfolding randomDelay_def by linarith
qed

lemma allSent_iff:
  "allSent P ri si rid cs \<longleftrightarrow> (\<forall>k<length cs. \<exists>m. p_sendMessage P ri si k rid (cs ! k) = Inr m)"
proof -
  have "allSent P ri si rid cs \<longleftrightarrow>
          (\<forall>k<length cs. case p_sendMessage P ri si k rid (cs ! k) of Inl msg \<Rightarrow> False | Inr m \<Rightarrow> True)"
    unfolding allSent_def list_all_iff
    by (auto simp: in_set_enumerate_eq)
  also have "\<dots> \<longleftrightarrow> (\<forall>k<length cs. \<exists>m. p_sendMessage P ri si k rid (cs ! k) = Inr m)"
  proof -
    have "\<And>x :: jsstring + jsstring.
            (case x of Inl msg \<Rightarrow> False | Inr m \<Rightarrow> True) \<longleftrightarrow> (\<exists>m. x = Inr m)"
      by (case_tac x) simp_all
    then show ?thesis by simp
  qed
  finally show ?thesis .
qed

lemma sendItems_allSent:
  "(\<exists>st'. sendItems P ri si 0 s rid (pairItems rq media s rid r g) st = Inr st')
     \<longleftrightarrow> allSent P ri si rid (pairContents rq media)"
  unfolding sendItems_Inr_iff allSent_iff
  by (simp add: pairItems_length pairItems_nth)

lemma processPair_unresolved:
  assumes "resolvesTo P lc ri si r = None"
  shows "processPair P lc rq media ri si r s st
     = st\<lparr>effects := effects st @ Resolve s r
             # (if snd (resolveRecipient lc (p_getChats P ri si) r) = 0 then [] else [GetChats s]),
          results := results st @ [failedEntry s r (js ''Recipient not found: '' @ r)]\<rparr>"
  using assms
  by (auto simp: processPair_def resolvesTo_def Let_def split: prod.splits option.splits if_splits)

lemma processPair_sleeps:
  "sleepsOf (effects (processPair P lc rq media ri si r s st))
     = sleepsOf (effects st)
       @ (case resolvesTo P lc ri si r of
            None \<Rightarrow> []
          | Some rid \<Rightarrow>
              if allSent P ri si rid (pairContents rq media)
              then [randomDelay (rq_delayMin rq) (rq_delayMax rq) (p_mathRandom P ri si)]
              else [])"
proof (cases "resolvesTo P lc ri si r")
  case None
  then show ?thesis by (simp add: processPair_unresolved sleepsOf_append)
next
  case (Some rid)
  obtain res calls where rc: "resolveRecipient lc (p_getChats P ri si) r = (res, calls)"
    by (cases "resolveRecipient lc (p_getChats P ri si) r")
  have rid: "r_id res = Some rid" "rid \<noteq> []"
    using Some rc by (auto simp: resolvesTo_def split: option.splits if_splits)
  define d1 where "d1 = st\<lparr>effects := effects st @ Resolve s r # (if calls = 0 then [] else [GetChats s])\<rparr>"
  define g where "g = (case r_name res of None \<Rightarrow> r | Some n \<Rightarrow> if n = [] then r else n)"
  have s1: "sleepsOf (effects d1) = sleepsOf (effects st)" by (simp add: d1_def sleepsOf_append)
  have pp: "processPair P lc rq media ri si r s st
     = (case sendItems P ri si 0 s rid (pairItems rq media s rid r g) d1 of
          Inl (msg, st2) \<Rightarrow> st2\<lparr>results := results st2 @ [failedEntry s r msg]\<rparr>
        | Inr st2 \<Rightarrow> st2\<lparr>effects := effects st2
             @ [Sleep (randomDelay (rq_delayMin rq) (rq_delayMax rq) (p_mathRandom P ri si))]\<rparr>)"
    unfolding processPair_def rc Let_def prod.case d1_def g_def using rid by simp
  show ?thesis
  proof (cases "sendItems P ri si 0 s rid (pairItems rq media s rid r g) d1")
    case (Inl md)
    obtain m d' where md: "md = (m, d')" by (cases md)
    have "\<not> allSent P ri si rid (pairContents rq media)"
      using sendItems_allSent[of P ri si s rid rq media r g d1] Inl by simp
    moreover have "sleepsOf (effects d') = sleepsOf (effects st)"
      using sendItems_sleeps[of P ri si 0 s rid _ d1 m d'] Inl md s1 by simp
    ultimately show ?thesis unfolding pp using Inl md Some by simp
  next
    case (Inr d')
    have "allSent P ri si rid (pairContents rq media)"
      using sendItems_allSent[of P ri si s rid rq media r g d1] Inr by blast
    moreover have "sleepsOf (effects d') = sleepsOf (effects st)"
      using sendItems_sleeps[of P ri si 0 s rid _ d1 _ _ d'] Inr s1 by simp
    ultimately show ?thesis unfolding pp using Inr Some by (simp add: sleepsOf_append)
  qed
qed

lemma processPair_send_failure:
  assumes "resolvesTo P lc ri si r = Some rid"
    and "k < length (pairContents rq media)"
    and "p_sendMessage P ri si k rid (pairContents rq media ! k) = Inl msg"
    and "\<forall>i<k. \<exists>m. p_sendMessage P ri si i rid (pairContents rq media ! i) = Inr m"
  shows "\<exists>pre. results (processPair P lc rq media ri si r s st) = pre @ [failedEntry s r msg]"
proof -
  obtain res calls where rc: "resolveRecipient lc (p_getChats P ri si) r = (res, calls)"
    by (cases "resolveRecipient lc (p_getChats P ri si) r")
  have rid: "r_id res = Some rid" "rid \<noteq> []"
    using assms(1) rc by (auto simp: resolvesTo_def split: option.splits if_splits)
  define d1 where "d1 = st\<lparr>effects := effects st @ Resolve s r # (if calls = 0 then [] else [GetChats s])\<rparr>"
  define g where "g = (case r_name res of None \<Rightarrow> r | Some n \<Rightarrow> if n = [] then r else n)"
  let ?items = "pairItems rq media s rid r g"
  have pp: "processPair P lc rq media ri si r s st
     = (case sendItems P ri si 0 s rid ?items d1 of
          Inl (msg, st2) \<Rightarrow> st2\<lparr>results := results st2 @ [failedEntry s r msg]\<rparr>
        | Inr st2 \<Rightarrow> st2\<lparr>effects := effects st2
             @ [Sleep (randomDelay (rq_delayMin rq) (rq_delayMax rq) (p_mathRandom P ri si))]\<rparr>)"
    unfolding processPair_def rc Let_def prod.case d1_def g_def using rid by simp
  have a: "k < length ?items" using assms(2) by (simp add: pairItems_length)
  have b: "p_sendMessage P ri si (0 + k) rid (fst (?items ! k)) = Inl msg"
    using assms(2,3) by (simp add: pairItems_nth)
  have c: "\<forall>i<k. \<exists>m. p_sendMessage P ri si (0 + i) rid (fst (?items ! i)) = Inr m"
    using assms(2,4) by (simp add: pairItems_nth)
  obtain st' where "sendItems P ri si 0 s rid ?items d1 = Inl (msg, st')"
    using sendItems_first_failure[OF a b c] by blast
  then show ?thesis unfolding pp by simp
qed

lemma processPair_results_mono:
  "set (results st) \<subseteq> set (results (processPair P lc rq media ri si r s st))"
  by (subst processPair_append) (simp add: bappend_sel)

lemma sessionsLoop_results_mono:
  "set (results st) \<subseteq> set (results (sessionsLoop P lc rq media cm ri r si ss st))"
  by (subst sessionsLoop_append) (simp add: bappend_sel)

lemma recipientsLoop_results_mono:
  "set (results st) \<subseteq> set (results (recipientsLoop P lc rq media cm ri rs st))"
  by (subst recipientsLoop_append) (simp add: bappend_sel)

lemma sessionsLoop_results_sub:
  assumes "j < length ss" and "cm (ss ! j) \<noteq> None"
  shows "set (results (processPair P lc rq media ri (si + j) r (ss ! j) bempty))
           \<subseteq> set (results (sessionsLoop P lc rq media cm ri r si ss st))"
  using assms
proof (induction ss arbitrary: si st j)
  case Nil
  then show ?case by simp
next
  case (Cons s ss)
  show ?case
  proof (cases j)
    case 0
    then obtain c where c: "cm s = Some c" using Cons.prems(2) by auto
    have "set (results (processPair P lc rq media ri si r s bempty))
            \<subseteq> set (results (processPair P lc rq media ri si r s st))"
      by (subst (2) processPair_append) (simp add: bappend_sel)
    also have "\<dots> \<subseteq> set (results (sessionsLoop P lc rq media cm ri r (Suc si) ss
                                  (processPair P lc rq media ri si r s st)))"
      by (rule sessionsLoop_results_mono)
    finally show ?thesis using 0 c by simp
  next
    case (Suc j')
    have a: "j' < length ss" and b: "cm (ss ! j') \<noteq> None"
      using Cons.prems Suc by simp_all
    show ?thesis
    proof (cases "cm s")
      case None
      then show ?thesis using Cons.IH[OF a b, of "Suc si" st] Suc by simp
    next
      case (Some c)
      then show ?thesis
        using Cons.IH[OF a b, of "Suc si" "processPair P lc rq media ri si r s st"] Suc by simp
    qed
  qed
qed

lemma recipientsLoop_results_sub:
  assumes "i < length rs" and "j < length (rq_sessionIds rq)"
    and "cm (rq_sessionIds rq ! j) \<noteq> None"
  shows "set (results (processPair P lc rq media (ri + i) j (rs ! i) (rq_sessionIds rq ! j) bempty))
           \<subseteq> set (results (recipientsLoop P lc rq media cm ri rs st))"
  using assms(1)
proof (induction rs arbitrary: ri st i)
  case Nil
  then show ?case by simp
next
  case (Cons r rs)
  let ?S = "sessionsLoop P lc rq media cm ri r 0 (rq_sessionIds rq) st"
  show ?case
  proof (cases i)
    case 0
    have "set (results (processPair P lc rq media ri (0 + j) r (rq_sessionIds rq ! j) bempty))
            \<subseteq> set (results ?S)"
      using sessionsLoop_results_sub[where j = j and ss = "rq_sessionIds rq" and cm = cm
          and si = 0 and st = st and ri = ri and r = r] assms(2,3)
      by simp
    also have "\<dots> \<subseteq> set (results (recipientsLoop P lc rq media cm (Suc ri) rs ?S))"
      by (rule recipientsLoop_results_mono)
    finally show ?thesis using 0 by simp
  next
    case (Suc i')
    then have "i' < length rs" using Cons.prems by simp
    from Cons.IH[OF this, of "Suc ri" ?S] show ?thesis using Suc by simp
  qed
qed

lemma sessionsLoop_sleeps_range:
  assumes "\<forall>d\<in>set (sleepsOf (effects st)). Q d"
    and "\<forall>ri si. Q (randomDelay (rq_delayMin rq) (rq_delayMax rq) (p_mathRandom P ri si))"
  shows "\<forall>d\<in>set (sleepsOf (effects (sessionsLoop P lc rq media cm ri r si ss st))). Q d"
  using assms(1)
proof (induction ss arbitrary: si st)
  case Nil
  then show ?case by simp
next
  case (Cons s ss)
  show ?case
  proof (cases "cm s")
    case None
    then show ?thesis using Cons.IH[OF Cons.prems, of "Suc si"] by simp
  next
    case (Some c)
    have "\<forall>d\<in>set (sleepsOf (effects (processPair P lc rq media ri si r s st))). Q d"
      using Cons.prems assms(2)
      by (auto simp: processPair_sleeps split: option.splits if_splits)
    from Cons.IH[OF this, of "Suc si"] show ?thesis using Some by simp
  qed
qed

lemma recipientsLoop_sleeps_range:
  assumes "\<forall>d\<in>set (sleepsOf (effects st)). Q d"
    and "\<forall>ri si. Q (randomDelay (rq_delayMin rq) (rq_delayMax rq) (p_mathRandom P ri si))"
  shows "\<forall>d\<in>set (sleepsOf (effects (recipientsLoop P lc rq media cm ri rs st))). Q d"
  using assms(1)
proof (induction rs arbitrary: ri st)
  case Nil
  then show ?case by simp
next
  case (Cons r rs)
  have "\<forall>d\<in>set (sleepsOf (effects (sessionsLoop P lc rq media cm ri r 0 (rq_sessionIds rq) st))). Q d"
    using sessionsLoop_sleeps_range[where Q = Q and st = st and rq = rq and P = P]
      Cons.prems assms(2) by blast
  from Cons.IH[OF this, of "Suc ri"] show ?case by simp
qed

lemma batch_sleeps_range:
  assumes "validRequest rq" and "fetchRemote P 0 (rq_mediaUrls rq) [] = Inr media"
    and "\<forall>ri si. Q (randomDelay (rq_delayMin rq) (rq_delayMax rq) (p_mathRandom P ri si))"
  shows "\<forall>d\<in>set (sleepsOf (snd (sendBatchMessage P lc rq))). Q d"
proof -
  let ?init = "\<lparr>results = snd (prepareClients P 0 (rq_sessionIds rq) (Map.empty, [])),
               effects = [], messageCount = 0\<rparr>"
  have "\<forall>d\<in>set (sleepsOf (effects ?init)). Q d" by simp
  then have "\<forall>d\<in>set (sleepsOf (effects (recipientsLoop P lc rq media (clientMapOf P rq) 0
                 (rq_to rq) ?init))). Q d"
    using recipientsLoop_sleeps_range[where Q = Q and st = ?init and rq = rq and P = P]
      assms(3) by blast
  then show ?thesis
    unfolding sendBatchMessage_run[OF assms(1,2)] Let_def snd_conv .
qed

lemma js_not_Nil: "js (c # s) \<noteq> []"
  by (simp add: js_def)

lemma hello_present: "textPresent (Some (js ''hello''))"
  by (simp add: textPresent_def trim_def js_def isSpace_def)

lemma trim_hello: "trim (js ''hello'') = js ''hello''"
  by (simp add: trim_def js_def isSpace_def)

lemma resolve_phone_A:
  "resolveRecipient lc g (js ''911234567890'') = (passThrough (js ''911234567890@c.us''), 0)"
  by (simp add: resolveRecipient_def js_def isDigit_def isSeparator_def isSpace_def)

text \<open>
  C6, as the claim states it, fails: the pair resolves (a phone number), its
  \<open>sendMessage\<close> throws, the failure is recorded, and the calls of the run hold no
  \<open>Sleep\<close>: the delay is not charged after a failed send.
\<close>

theorem failed_send_skips_delay_counterexample:
  "resolveRecipient asciiLower (p_getChats providerSendFails 0 0) (js ''911234567890'')
     = (passThrough (js ''911234567890@c.us''), 0)
   \<and> sendBatchMessage providerSendFails asciiLower requestOne
     = (Success 1 [failedEntry (js ''S1'') (js ''911234567890'') (js ''Evaluation failed'')],
        [Resolve (js ''S1'') (js ''911234567890''),
         SendMessage (js ''S1'') (js ''911234567890@c.us'') (Text (js ''hello''))])
   \<and> sleepsOf (snd (sendBatchMessage providerSendFails asciiLower requestOne)) = []"
  by (simp add: sendBatchMessage_def requestOne_def providerSendFails_def providerOk_def
      hello_present trim_hello processPair_def resolve_phone_A passThrough_def pairItems_def Let_def js_not_Nil)

lemma resolve_Nobody:
  "resolveRecipient asciiLower (Inr []) (js ''Nobody'') = (notFound (js ''Nobody'') None, 1)"
  by (simp add: resolveRecipient_def js_def isDigit_def isSeparator_def isSpace_def)

lemma resolve_phone_C:
  "resolveRecipient lc g (js ''919876543210'') = (passThrough (js ''919876543210@c.us''), 0)"
  by (simp add: resolveRecipient_def js_def isDigit_def isSeparator_def isSpace_def)

text \<open>The run of \<open>requestABC\<close>: two entries sent, the one in the middle failed.\<close>

lemma batch_partial_failure_ledger:
  "fst (sendBatchMessage providerOk asciiLower requestABC)
     = Success 3
        [(sentEntry (js ''S1'') (js ''911234567890@c.us'') (js ''911234567890'') (js ''911234567890'') (js ''text'') None)\<lparr>e_messageId := Some (js ''msg'')\<rparr>,
         failedEntry (js ''S1'') (js ''Nobody'') (js ''Recipient not found: '' @ js ''Nobody''),
         (sentEntry (js ''S1'') (js ''919876543210@c.us'') (js ''919876543210'') (js ''919876543210'') (js ''text'') None)\<lparr>e_messageId := Some (js ''msg'')\<rparr>]"
  by (simp add: sendBatchMessage_def requestABC_def providerOk_def notFound_def
      hello_present trim_hello processPair_def resolve_phone_A resolve_phone_C resolve_Nobody passThrough_def pairItems_def Let_def js_not_Nil)

text \<open>
  C6 (amended): with draws of \<open>Math.random\<close> in \<open>[0, 1)\<close> and integer bounds
  \<open>delayMin \<le> delayMax\<close>: a pair that resolves and whose content items are all sent is
  followed by exactly one sleep of \<open>randomDelay(delayMin, delayMax)\<close> with the draw of that
  pair, and the duration lies in \<open>[delayMin, delayMax]\<close>; a pair that resolves and one of
  whose sends throws is followed by no sleep (the delay is the last statement of the
  \<open>try\<close> block); and in a whole run the ready pairs are each taken up once, in order, and
  every sleep lies in the window, so with \<open>delayMin = delayMax = 0\<close> every pair is still
  processed exactly once.
\<close>

theorem pair_delay_after_sent_items:
  assumes "\<forall>ri si. 0 \<le> p_mathRandom P ri si \<and> p_mathRandom P ri si < 1"
    and "rq_delayMin rq \<le> rq_delayMax rq"
  shows
    "(resolvesTo P lc ri si r = Some rid \<and> allSent P ri si rid (pairContents rq media) \<longrightarrow>
        sleepsOf (effects (processPair P lc rq media ri si r s st))
          = sleepsOf (effects st)
            @ [randomDelay (rq_delayMin rq) (rq_delayMax rq) (p_mathRandom P ri si)]
        \<and> rq_delayMin rq \<le> randomDelay (rq_delayMin rq) (rq_delayMax rq) (p_mathRandom P ri si)
        \<and> randomDelay (rq_delayMin rq) (rq_delayMax rq) (p_mathRandom P ri si) \<le> rq_delayMax rq)
     \<and> (resolvesTo P lc ri si r = Some rid \<and> \<not> allSent P ri si rid (pairContents rq media) \<longrightarrow>
        sleepsOf (effects (processPair P lc rq media ri si r s st)) = sleepsOf (effects st))
     \<and> (validRequest rq \<and> fetchRemote P 0 (rq_mediaUrls rq) [] = Inr media \<longrightarrow>
        pairsOf (snd (sendBatchMessage P lc rq))
          = List.product (rq_to rq)
              (filter (\<lambda>s. clientMapOf P rq s \<noteq> None) (rq_sessionIds rq))
        \<and> (\<forall>d\<in>set (sleepsOf (snd (sendBatchMessage P lc rq))).
              rq_delayMin rq \<le> d \<and> d \<le> rq_delayMax rq))"
proof (intro conjI impI)
  have rng: "\<forall>ri si. rq_delayMin rq \<le> randomDelay (rq_delayMin rq) (rq_delayMax rq) (p_mathRandom P ri si)
       \<and> randomDelay (rq_delayMin rq) (rq_delayMax rq) (p_mathRandom P ri si) \<le> rq_delayMax rq"
    using assms randomDelay_range by blast
  {
    assume h: "resolvesTo P lc ri si r = Some rid \<and> allSent P ri si rid (pairContents rq media)"
    show "sleepsOf (effects (processPair P lc rq media ri si r s st))
          = sleepsOf (effects st)
            @ [randomDelay (rq_delayMin rq) (rq_delayMax rq) (p_mathRandom P ri si)]"
      using h by (simp add: processPair_sleeps)
    show "rq_delayMin rq \<le> randomDelay (rq_delayMin rq) (rq_delayMax rq) (p_mathRandom P ri si)"
      using rng by blast
    show "randomDelay (rq_delayMin rq) (rq_delayMax rq) (p_mathRandom P ri si) \<le> rq_delayMax rq"
      using rng by blast
  }
  {
    assume h: "resolvesTo P lc ri si r = Some rid \<and> \<not> allSent P ri si rid (pairContents rq media)"
    show "sleepsOf (effects (processPair P lc rq media ri si r s st)) = sleepsOf (effects st)"
      using h by (simp add: processPair_sleeps)
  }
  {
    assume h: "validRequest rq \<and> fetchRemote P 0 (rq_mediaUrls rq) [] = Inr media"
    show "pairsOf (snd (sendBatchMessage P lc rq))
          = List.product (rq_to rq)
              (filter (\<lambda>s. clientMapOf P rq s \<noteq> None) (rq_sessionIds rq))"
      using h batch_pairs by blast
    show "\<forall>d\<in>set (sleepsOf (snd (sendBatchMessage P lc rq))).
              rq_delayMin rq \<le> d \<and> d \<le> rq_delayMax rq"
      using batch_sleeps_range[where Q = "\<lambda>d. rq_delayMin rq \<le> d \<and> d \<le> rq_delayMax rq"
          and rq = rq and P = P and media = media and lc = lc] h rng
      by blast
  }
qed

lemma sendsOf_append: "sendsOf (xs @ ys) = sendsOf xs @ sendsOf ys"
  by (induction xs rule: sendsOf.induct) simp_all

lemma sendItems_ledger:
  "(case sendItems P ri si k s rid items st of
      Inl (msg, st') \<Rightarrow> results st' @ [failedEntry s r msg]
    | Inr st' \<Rightarrow> results st')
     = results st @ sentUntilFailure P ri si s r rid k items"
proof (induction items arbitrary: k st)
  case Nil
  show ?case by simp
next
  case (Cons it items)
  obtain c e where it: "it = (c, e)" by (cases it)
  show ?case
  proof (cases "p_sendMessage P ri si k rid c")
    case (Inl m)
    then show ?thesis unfolding it by (simp add: Let_def)
  next
    case (Inr mid)
    let ?st2 = "st\<lparr>effects := effects st @ [SendMessage s rid c],
                   messageCount := Suc (messageCount st),
                   results := results st @ [e\<lparr>e_messageId := Some mid\<rparr>]\<rparr>"
    have step: "sendItems P ri si k s rid (it # items) st = sendItems P ri si (Suc k) s rid items ?st2"
      unfolding it by (simp add: Let_def Inr)
    from Cons.IH[of "Suc k" ?st2] show ?thesis unfolding step by (simp add: it Inr)
  qed
qed

lemma sendItems_sends:
  "sendsOf (effects (case sendItems P ri si k s rid items st of
                       Inl (msg, st') \<Rightarrow> st' | Inr st' \<Rightarrow> st'))
     = sendsOf (effects st) @ map (\<lambda>c. (s, rid, c)) (attempted P ri si rid k (map fst items))"
proof (induction items arbitrary: k st)
  case Nil
  show ?case by simp
next
  case (Cons it items)
  obtain c e where it: "it = (c, e)" by (cases it)
  show ?case
  proof (cases "p_sendMessage P ri si k rid c")
    case (Inl m)
    then show ?thesis unfolding it by (simp add: Let_def sendsOf_append)
  next
    case (Inr mid)
    let ?st2 = "st\<lparr>effects := effects st @ [SendMessage s rid c],
                   messageCount := Suc (messageCount st),
                   results := results st @ [e\<lparr>e_messageId := Some mid\<rparr>]\<rparr>"
    have step: "sendItems P ri si k s rid (it # items) st = sendItems P ri si (Suc k) s rid items ?st2"
      unfolding it by (simp add: Let_def Inr)
    from Cons.IH[of "Suc k" ?st2] show ?thesis
      unfolding step by (simp add: it Inr sendsOf_append)
  qed
qed

lemma processPair_resolved:
  assumes "resolvesTo P lc ri si r = Some rid"
  shows "processPair P lc rq media ri si r s st
     = (case sendItems P ri si 0 s rid
              (pairItems rq media s rid r (resolvedName P lc ri si r))
              (st\<lparr>effects := effects st @ Resolve s r
                 # (if snd (resolveRecipient lc (p_getChats P ri si) r) = 0 then []
                    else [GetChats s])\<rparr>) of
          Inl (msg, st2) \<Rightarrow> st2\<lparr>results := results st2 @ [failedEntry s r msg]\<rparr>
        | Inr st2 \<Rightarrow> st2\<lparr>effects := effects st2
             @ [Sleep (randomDelay (rq_delayMin rq) (rq_delayMax rq) (p_mathRandom P ri si))]\<rparr>)"
proof -
  obtain res calls where rc: "resolveRecipient lc (p_getChats P ri si) r = (res, calls)"
    by (cases "resolveRecipient lc (p_getChats P ri si) r")
  have rid: "r_id res = Some rid" "rid \<noteq> []"
    using assms rc by (auto simp: resolvesTo_def split: option.splits if_splits)
  show ?thesis
    unfolding processPair_def rc Let_def prod.case resolvedName_def using rid by simp
qed

lemma processPair_ledger:
  "results (processPair P lc rq media ri si r s st)
     = results st @ pairLedger P lc rq media ri si r s"
proof (cases "resolvesTo P lc ri si r")
  case None
  then show ?thesis by (simp add: processPair_unresolved pairLedger_def)
next
  case (Some rid)
  let ?items = "pairItems rq media s rid r (resolvedName P lc ri si r)"
  let ?st1 = "st\<lparr>effects := effects st @ Resolve s r
                 # (if snd (resolveRecipient lc (p_getChats P ri si) r) = 0 then []
                    else [GetChats s])\<rparr>"
  note l = sendItems_ledger[where P = P and ri = ri and si = si and k = 0 and s = s
      and rid = rid and items = ?items and st = ?st1 and r = r]
  show ?thesis
  proof (cases "sendItems P ri si 0 s rid ?items ?st1")
    case (Inl md)
    obtain m d where md: "md = (m, d)" by (cases md)
    show ?thesis using l unfolding processPair_resolved[OF Some] Inl md
      by (simp add: pairLedger_def Some)
  next
    case (Inr d)
    show ?thesis using l unfolding processPair_resolved[OF Some] Inr
      by (simp add: pairLedger_def Some)
  qed
qed

lemma processPair_sends:
  "sendsOf (effects (processPair P lc rq media ri si r s st))
     = sendsOf (effects st) @ pairSends P lc rq media ri si r s"
proof (cases "resolvesTo P lc ri si r")
  case None
  then show ?thesis by (simp add: processPair_unresolved pairSends_def sendsOf_append)
next
  case (Some rid)
  let ?items = "pairItems rq media s rid r (resolvedName P lc ri si r)"
  let ?st1 = "st\<lparr>effects := effects st @ Resolve s r
                 # (if snd (resolveRecipient lc (p_getChats P ri si) r) = 0 then []
                    else [GetChats s])\<rparr>"
  note l = sendItems_sends[where P = P and ri = ri and si = si and k = 0 and s = s
      and rid = rid and items = ?items and st = ?st1]
  have s1: "sendsOf (effects ?st1) = sendsOf (effects st)" by (simp add: sendsOf_append)
  show ?thesis
  proof (cases "sendItems P ri si 0 s rid ?items ?st1")
    case (Inl md)
    obtain m d where md: "md = (m, d)" by (cases md)
    show ?thesis using l s1 unfolding processPair_resolved[OF Some] Inl md
      by (simp add: pairSends_def Some pairItems_contents)
  next
    case (Inr d)
    show ?thesis using l s1 unfolding processPair_resolved[OF Some] Inr
      by (simp add: pairSends_def Some pairItems_contents sendsOf_append)
  qed
qed

lemma sessionsLoop_ledger:
  "results (sessionsLoop P lc rq media cm ri r si ss st)
     = results st
       @ concat (map (\<lambda>(j, s). if cm s = None then [] else pairLedger P lc rq media ri j r s)
                   (enumerate si ss))"
proof (induction ss arbitrary: si st)
  case Nil
  show ?case by simp
next
  case (Cons s ss)
  show ?case
  proof (cases "cm s")
    case None
    then show ?thesis using Cons.IH[of "Suc si" st] by simp
  next
    case (Some c)
    then show ?thesis
      using Cons.IH[of "Suc si" "processPair P lc rq media ri si r s st"]
      by (simp add: processPair_ledger)
  qed
qed

lemma sessionsLoop_sends:
  "sendsOf (effects (sessionsLoop P lc rq media cm ri r si ss st))
     = sendsOf (effects st)
       @ concat (map (\<lambda>(j, s). if cm s = None then [] else pairSends P lc rq media ri j r s)
                   (enumerate si ss))"
proof (induction ss arbitrary: si st)
  case Nil
  show ?case by simp
next
  case (Cons s ss)
  show ?case
  proof (cases "cm s")
    case None
    then show ?thesis using Cons.IH[of "Suc si" st] by simp
  next
    case (Some c)
    then show ?thesis
      using Cons.IH[of "Suc si" "processPair P lc rq media ri si r s st"]
      by (simp add: processPair_sends)
  qed
qed

lemma recipientsLoop_ledger:
  "results (recipientsLoop P lc rq media cm ri rs st)
     = results st
       @ concat (map (\<lambda>(i, r).
            concat (map (\<lambda>(j, s). if cm s = None then []
                                   else pairLedger P lc rq media i j r s)
                      (enumerate 0 (rq_sessionIds rq))))
          (enumerate ri rs))"
proof (induction rs arbitrary: ri st)
  case Nil
  show ?case by simp
next
  case (Cons r rs)
  show ?case
    using Cons.IH[of "Suc ri" "sessionsLoop P lc rq media cm ri r 0 (rq_sessionIds rq) st"]
    by (simp add: sessionsLoop_ledger)
qed

lemma recipientsLoop_sends:
  "sendsOf (effects (recipientsLoop P lc rq media cm ri rs st))
     = sendsOf (effects st)
       @ concat (map (\<lambda>(i, r).
            concat (map (\<lambda>(j, s). if cm s = None then []
                                   else pairSends P lc rq media i j r s)
                      (enumerate 0 (rq_sessionIds rq))))
          (enumerate ri rs))"
proof (induction rs arbitrary: ri st)
  case Nil
  show ?case by simp
next
  case (Cons r rs)
  show ?case
    using Cons.IH[of "Suc ri" "sessionsLoop P lc rq media cm ri r 0 (rq_sessionIds rq) st"]
    by (simp add: sessionsLoop_sends)
qed

lemma attempted_all:
  "(\<forall>j<length cs. \<exists>m. p_sendMessage P ri si (k + j) rid (cs ! j) = Inr m)
     \<Longrightarrow> attempted P ri si rid k cs = cs"
proof (induction cs arbitrary: k)
  case Nil
  show ?case by simp
next
  case (Cons c cs)
  from Cons.prems have "\<exists>m. p_sendMessage P ri si (k + 0) rid ((c # cs) ! 0) = Inr m"
    by blast
  then obtain m where m: "p_sendMessage P ri si k rid c = Inr m" by auto
  have "\<forall>j<length cs. \<exists>m. p_sendMessage P ri si (Suc k + j) rid (cs ! j) = Inr m"
  proof (intro allI impI)
    fix j assume "j < length cs"
    then have "Suc j < length (c # cs)" by simp
    with Cons.prems have "\<exists>m. p_sendMessage P ri si (k + Suc j) rid ((c # cs) ! Suc j) = Inr m"
      by blast
    then show "\<exists>m. p_sendMessage P ri si (Suc k + j) rid (cs ! j) = Inr m" by simp
  qed
  from Cons.IH[OF this] show ?case by (simp add: m)
qed

lemma sentUntilFailure_all:
  "(\<forall>j<length items. \<exists>m. p_sendMessage P ri si (k + j) rid (fst (items ! j)) = Inr m)
     \<Longrightarrow> (\<forall>it\<in>set items. e_status (snd it) = Some Sent)
     \<Longrightarrow> length (sentUntilFailure P ri si s r rid k items) = length items
         \<and> list_all (\<lambda>e. e_status e = Some Sent) (sentUntilFailure P ri si s r rid k items)"
proof (induction items arbitrary: k)
  case Nil
  show ?case by simp
next
  case (Cons it items)
  obtain c e where it: "it = (c, e)" by (cases it)
  from Cons.prems(1) have "\<exists>m. p_sendMessage P ri si (k + 0) rid (fst ((it # items) ! 0)) = Inr m"
    by blast
  then obtain m where m: "p_sendMessage P ri si k rid c = Inr m" using it by auto
  have a: "\<forall>j<length items. \<exists>m. p_sendMessage P ri si (Suc k + j) rid (fst (items ! j)) = Inr m"
  proof (intro allI impI)
    fix j assume "j < length items"
    then have "Suc j < length (it # items)" by simp
    with Cons.prems(1)
    have "\<exists>m. p_sendMessage P ri si (k + Suc j) rid (fst ((it # items) ! Suc j)) = Inr m"
      by blast
    then show "\<exists>m. p_sendMessage P ri si (Suc k + j) rid (fst (items ! j)) = Inr m" by simp
  qed
  have b: "\<forall>it\<in>set items. e_status (snd it) = Some Sent" using Cons.prems(2) by simp
  have e: "e_status e = Some Sent" using Cons.prems(2) it by simp
  from Cons.IH[OF a b] show ?case unfolding it by (simp add: m e)
qed

lemma pairItems_status:
  "\<forall>it\<in>set (pairItems rq media s rid r g). e_status (snd it) = Some Sent"
  by (auto simp: pairItems_def localItems_def remoteItems_def sentEntry_def
      split: option.splits if_splits)

lemma all_sent_pair:
  assumes "resolvesTo P lc ri si r = Some rid"
    and "allSent P ri si rid (pairContents rq media)"
  shows "pairSends P lc rq media ri si r s = map (\<lambda>c. (s, rid, c)) (pairContents rq media)
     \<and> length (pairLedger P lc rq media ri si r s) = length (pairContents rq media)
     \<and> list_all (\<lambda>e. e_status e = Some Sent) (pairLedger P lc rq media ri si r s)"
proof -
  let ?items = "pairItems rq media s rid r (resolvedName P lc ri si r)"
  have a: "\<forall>j<length (pairContents rq media).
             \<exists>m. p_sendMessage P ri si (0 + j) rid (pairContents rq media ! j) = Inr m"
    using assms(2) by (simp add: allSent_iff)
  have b: "\<forall>j<length ?items. \<exists>m. p_sendMessage P ri si (0 + j) rid (fst (?items ! j)) = Inr m"
    using a by (simp add: pairItems_length pairItems_nth)
  have "attempted P ri si rid 0 (pairContents rq media) = pairContents rq media"
    by (rule attempted_all[OF a])
  moreover note sentUntilFailure_all[OF b pairItems_status, of s r]
  ultimately show ?thesis
    by (simp add: pairSends_def pairLedger_def assms(1) pairItems_length)
qed


text \<open>
  C7: a request that passes the checks and whose remote media load is always answered
  with success and the whole ledger, whatever the outcomes of resolution and sending. The
  ledger is, in order, the errors of the preparation and then for every recipient and
  every ready session, recipients outermost, the entries of that pair as \<open>pairLedger\<close>
  gives them: a failure in one pair changes nothing in the entries of the others. The
  \<open>sendMessage\<close> calls of the run are those of \<open>pairSends\<close> for the same pairs in the
  same order, so every other ready pair is attempted; a pair that resolves and whose
  sends all succeed has every content sent and one sent entry for each. All pairs of a
  recipient and a ready session are taken up, in order, whatever fails. For each such
  pair, a recipient that does not resolve leaves the entry
  \<open>{status: failed, error: "Recipient not found: ..."}\<close> in the ledger, and a
  \<open>sendMessage\<close> that throws (the first of the pair to do so) leaves a failed entry with
  the message of the error.
\<close>

theorem batch_failures_recorded:
  assumes "validRequest rq" and "fetchRemote P 0 (rq_mediaUrls rq) [] = Inr media"
  shows "\<exists>ledger.
      fst (sendBatchMessage P lc rq) = Success (length ledger) ledger
      \<and> ledger
          = snd (prepareClients P 0 (rq_sessionIds rq) (Map.empty, []))
            @ concat (map (\<lambda>(i, r).
                 concat (map (\<lambda>(j, s). if clientMapOf P rq s = None then []
                                        else pairLedger P lc rq media i j r s)
                           (enumerate 0 (rq_sessionIds rq))))
               (enumerate 0 (rq_to rq)))
      \<and> sendsOf (snd (sendBatchMessage P lc rq))
          = concat (map (\<lambda>(i, r).
                 concat (map (\<lambda>(j, s). if clientMapOf P rq s = None then []
                                        else pairSends P lc rq media i j r s)
                           (enumerate 0 (rq_sessionIds rq))))
               (enumerate 0 (rq_to rq)))
      \<and> (\<forall>i j r s rid.
            resolvesTo P lc i j r = Some rid \<and> allSent P i j rid (pairContents rq media) \<longrightarrow>
              pairSends P lc rq media i j r s
                = map (\<lambda>c. (s, rid, c)) (pairContents rq media)
              \<and> length (pairLedger P lc rq media i j r s) = length (pairContents rq media)
              \<and> list_all (\<lambda>e. e_status e = Some Sent) (pairLedger P lc rq media i j r s))
      \<and> pairsOf (snd (sendBatchMessage P lc rq))
          = List.product (rq_to rq)
              (filter (\<lambda>s. clientMapOf P rq s \<noteq> None) (rq_sessionIds rq))
      \<and> (\<forall>i<length (rq_to rq). \<forall>j<length (rq_sessionIds rq).
            clientMapOf P rq (rq_sessionIds rq ! j) \<noteq> None \<longrightarrow>
              (resolvesTo P lc i j (rq_to rq ! i) = None \<longrightarrow>
                 failedEntry (rq_sessionIds rq ! j) (rq_to rq ! i)
                   (js ''Recipient not found: '' @ rq_to rq ! i) \<in> set ledger)
              \<and> (\<forall>rid k msg.
                   resolvesTo P lc i j (rq_to rq ! i) = Some rid
                   \<and> k < length (pairContents rq media)
                   \<and> p_sendMessage P i j k rid (pairContents rq media ! k) = Inl msg
                   \<and> (\<forall>k'<k. \<exists>m. p_sendMessage P i j k' rid (pairContents rq media ! k') = Inr m)
                   \<longrightarrow> failedEntry (rq_sessionIds rq ! j) (rq_to rq ! i) msg \<in> set ledger))"
proof -
  let ?cm = "clientMapOf P rq"
  let ?init = "\<lparr>results = snd (prepareClients P 0 (rq_sessionIds rq) (Map.empty, [])),
               effects = [], messageCount = 0\<rparr>"
  let ?st = "recipientsLoop P lc rq media ?cm 0 (rq_to rq) ?init"
  have run: "sendBatchMessage P lc rq = (Success (length (results ?st)) (results ?st), effects ?st)"
    using sendBatchMessage_run[OF assms] by (simp add: Let_def)
  have sub: "\<And>i j. i < length (rq_to rq) \<Longrightarrow> j < length (rq_sessionIds rq) \<Longrightarrow>
      ?cm (rq_sessionIds rq ! j) \<noteq> None \<Longrightarrow>
      set (results (processPair P lc rq media i j (rq_to rq ! i) (rq_sessionIds rq ! j) bempty))
        \<subseteq> set (results ?st)"
    using recipientsLoop_results_sub[where ri = 0 and rs = "rq_to rq" and cm = ?cm and st = ?init
        and rq = rq and P = P and lc = lc and media = media]
    by simp
  have fails: "\<forall>i<length (rq_to rq). \<forall>j<length (rq_sessionIds rq).
            ?cm (rq_sessionIds rq ! j) \<noteq> None \<longrightarrow>
              (resolvesTo P lc i j (rq_to rq ! i) = None \<longrightarrow>
                 failedEntry (rq_sessionIds rq ! j) (rq_to rq ! i)
                   (js ''Recipient not found: '' @ rq_to rq ! i) \<in> set (results ?st))
              \<and> (\<forall>rid k msg.
                   resolvesTo P lc i j (rq_to rq ! i) = Some rid
                   \<and> k < length (pairContents rq media)
                   \<and> p_sendMessage P i j k rid (pairContents rq media ! k) = Inl msg
                   \<and> (\<forall>k'<k. \<exists>m. p_sendMessage P i j k' rid (pairContents rq media ! k') = Inr m)
                   \<longrightarrow> failedEntry (rq_sessionIds rq ! j) (rq_to rq ! i) msg \<in> set (results ?st))"
  proof (intro allI impI conjI)
    fix i j
    assume ij: "i < length (rq_to rq)" "j < length (rq_sessionIds rq)"
      "?cm (rq_sessionIds rq ! j) \<noteq> None"
    let ?r = "rq_to rq ! i" and ?s = "rq_sessionIds rq ! j"
    {
      assume "resolvesTo P lc i j ?r = None"
      then have "failedEntry ?s ?r (js ''Recipient not found: '' @ ?r)
          \<in> set (results (processPair P lc rq media i j ?r ?s bempty))"
        by (simp add: processPair_unresolved)
      then show "failedEntry ?s ?r (js ''Recipient not found: '' @ ?r) \<in> set (results ?st)"
        using sub[OF ij] by blast
    }
    {
      fix rid k msg
      assume h: "resolvesTo P lc i j ?r = Some rid
                   \<and> k < length (pairContents rq media)
                   \<and> p_sendMessage P i j k rid (pairContents rq media ! k) = Inl msg
                   \<and> (\<forall>k'<k. \<exists>m. p_sendMessage P i j k' rid (pairContents rq media ! k') = Inr m)"
      then obtain pre where
        "results (processPair P lc rq media i j ?r ?s bempty) = pre @ [failedEntry ?s ?r msg]"
        using processPair_send_failure[of P lc i j ?r rid k rq media msg ?s bempty] by blast
      then have "failedEntry ?s ?r msg \<in> set (results (processPair P lc rq media i j ?r ?s bempty))"
        by simp
      then show "failedEntry ?s ?r msg \<in> set (results ?st)"
        using sub[OF ij] by blast
    }
  qed
  have pairs: "pairsOf (snd (sendBatchMessage P lc rq))
          = List.product (rq_to rq) (filter (\<lambda>s. ?cm s \<noteq> None) (rq_sessionIds rq))"
    by (rule batch_pairs[OF assms])
  have f: "fst (sendBatchMessage P lc rq) = Success (length (results ?st)) (results ?st)"
    using run by simp
  have led: "results ?st
          = snd (prepareClients P 0 (rq_sessionIds rq) (Map.empty, []))
            @ concat (map (\<lambda>(i, r).
                 concat (map (\<lambda>(j, s). if clientMapOf P rq s = None then []
                                        else pairLedger P lc rq media i j r s)
                           (enumerate 0 (rq_sessionIds rq))))
               (enumerate 0 (rq_to rq)))"
    by (simp add: recipientsLoop_ledger)
  have snd: "sendsOf (snd (sendBatchMessage P lc rq))
          = concat (map (\<lambda>(i, r).
                 concat (map (\<lambda>(j, s). if clientMapOf P rq s = None then []
                                        else pairSends P lc rq media i j r s)
                           (enumerate 0 (rq_sessionIds rq))))
               (enumerate 0 (rq_to rq)))"
    unfolding run by (simp add: recipientsLoop_sends)
  have alls: "\<forall>i j r s rid.
            resolvesTo P lc i j r = Some rid \<and> allSent P i j rid (pairContents rq media) \<longrightarrow>
              pairSends P lc rq media i j r s
                = map (\<lambda>c. (s, rid, c)) (pairContents rq media)
              \<and> length (pairLedger P lc rq media i j r s) = length (pairContents rq media)
              \<and> list_all (\<lambda>e. e_status e = Some Sent) (pairLedger P lc rq media i j r s)"
    using all_sent_pair by blast
  show ?thesis
    by (rule exI[of _ "results ?st"], intro conjI, rule f, rule led, rule snd, rule alls,
        rule pairs, rule fails)
qed

lemma providerOk_random:
  "\<forall>ri si. 0 \<le> p_mathRandom providerOk ri si \<and> p_mathRandom providerOk ri si < 1"
  by (simp add: providerOk_def)

lemma providerSendFails_random:
  "\<forall>ri si. 0 \<le> p_mathRandom providerSendFails ri si \<and> p_mathRandom providerSendFails ri si < 1"
  by (simp add: providerSendFails_def providerOk_def)

lemma requestZero_valid: "validRequest requestZero"
  by (simp add: validRequest_def requestZero_def requestAB_def hello_present)

lemma requestZero_fetch: "fetchRemote providerOk 0 (rq_mediaUrls requestZero) [] = Inr []"
  by (simp add: requestZero_def requestAB_def)

lemma requestZero_ready:
  "filter (\<lambda>s. clientMapOf providerOk requestZero s \<noteq> None) (rq_sessionIds requestZero)
     = [js ''S1'', js ''S2'']"
  by (simp add: clientMapOf_def requestZero_def requestAB_def providerOk_def)

lemma resolvesTo_phone_A: "resolvesTo P lc ri si (js ''911234567890'') = Some (js ''911234567890@c.us'')"
  by (simp add: resolvesTo_def resolve_phone_A passThrough_def js_not_Nil)

lemma contents_hello:
  "pairContents requestZero [] = [Text (js ''hello'')]"
  "pairContents requestOne [] = [Text (js ''hello'')]"
  "pairContents requestABC [] = [Text (js ''hello'')]"
  by (simp_all add: pairContents_def pairItems_def requestZero_def requestAB_def requestOne_def
      requestABC_def trim_hello js_not_Nil)

lemma allSent_ok: "allSent providerOk 0 0 (js ''911234567890@c.us'') [Text (js ''hello'')]"
  by (simp add: allSent_def providerOk_def)

lemma allSent_fails: "\<not> allSent providerSendFails 0 0 (js ''911234567890@c.us'') [Text (js ''hello'')]"
  by (simp add: allSent_def providerSendFails_def providerOk_def)

lemma requestOne_valid: "validRequest requestOne"
  by (simp add: validRequest_def requestOne_def hello_present)

lemma requestOne_fetch: "fetchRemote providerSendFails 0 (rq_mediaUrls requestOne) [] = Inr []"
  by (simp add: requestOne_def)

lemma requestOne_ready: "clientMapOf providerSendFails requestOne (js ''S1'') \<noteq> None"
  by (simp add: clientMapOf_def requestOne_def providerSendFails_def providerOk_def)

lemma requestABC_valid: "validRequest requestABC"
  by (simp add: validRequest_def requestABC_def hello_present)

lemma requestABC_fetch: "fetchRemote providerOk 0 (rq_mediaUrls requestABC) [] = Inr []"
  by (simp add: requestABC_def)

lemma requestABC_ready: "clientMapOf providerOk requestABC (js ''S1'') \<noteq> None"
  by (simp add: clientMapOf_def requestABC_def providerOk_def)

lemma resolvesTo_Nobody: "resolvesTo providerOk asciiLower 1 0 (js ''Nobody'') = None"
  by (simp add: resolvesTo_def providerOk_def resolve_Nobody notFound_def)

theorem pair_delay_after_sent_items_witness:
  "(\<forall>ri si. 0 \<le> p_mathRandom providerOk ri si \<and> p_mathRandom providerOk ri si < 1)
   \<and> rq_delayMin requestZero \<le> rq_delayMax requestZero
   \<and> resolvesTo providerOk asciiLower 0 0 (js ''911234567890'') = Some (js ''911234567890@c.us'')
   \<and> allSent providerOk 0 0 (js ''911234567890@c.us'') (pairContents requestZero [])
   \<and> sleepsOf (effects (processPair providerOk asciiLower requestZero [] 0 0
                          (js ''911234567890'') (js ''S1'') bempty)) = [0]
   \<and> validRequest requestZero
   \<and> fetchRemote providerOk 0 (rq_mediaUrls requestZero) [] = Inr []
   \<and> pairsOf (snd (sendBatchMessage providerOk asciiLower requestZero))
       = [(js ''911234567890'', js ''S1''), (js ''911234567890'', js ''S2''),
          (js ''919876543210'', js ''S1''), (js ''919876543210'', js ''S2'')]
   \<and> set (sleepsOf (snd (sendBatchMessage providerOk asciiLower requestZero))) \<subseteq> {0}
   \<and> rq_delayMin requestOne \<le> rq_delayMax requestOne
   \<and> resolvesTo providerSendFails asciiLower 0 0 (js ''911234567890'')
       = Some (js ''911234567890@c.us'')
   \<and> \<not> allSent providerSendFails 0 0 (js ''911234567890@c.us'') (pairContents requestOne [])
   \<and> sleepsOf (effects (processPair providerSendFails asciiLower requestOne [] 0 0
                          (js ''911234567890'') (js ''S1'') bempty)) = []"
proof -
  have z: "rq_delayMin requestZero \<le> rq_delayMax requestZero"
    "rq_delayMin requestZero = 0" "rq_delayMax requestZero = 0"
    by (simp_all add: requestZero_def)
  have o: "rq_delayMin requestOne \<le> rq_delayMax requestOne"
    by (simp add: requestOne_def)
  note ok = pair_delay_after_sent_items [OF providerOk_random z(1), of asciiLower 0 0
      "js ''911234567890''" "js ''911234567890@c.us''" "[]" "js ''S1''" bempty]
  note bad = pair_delay_after_sent_items [OF providerSendFails_random o, of asciiLower 0 0
      "js ''911234567890''" "js ''911234567890@c.us''" "[]" "js ''S1''" bempty]
  have a: "sleepsOf (effects (processPair providerOk asciiLower requestZero [] 0 0
                          (js ''911234567890'') (js ''S1'') bempty)) = [0]"
    using ok resolvesTo_phone_A allSent_ok
    by (simp add: contents_hello bempty_def z randomDelay_def providerOk_def)
  have "pairsOf (snd (sendBatchMessage providerOk asciiLower requestZero))
       = List.product (rq_to requestZero)
           (filter (\<lambda>s. clientMapOf providerOk requestZero s \<noteq> None)
              (rq_sessionIds requestZero))"
    using ok requestZero_valid requestZero_fetch by blast
  then have b: "pairsOf (snd (sendBatchMessage providerOk asciiLower requestZero))
       = List.product (rq_to requestZero) [js ''S1'', js ''S2'']"
    unfolding requestZero_ready .
  have c: "set (sleepsOf (snd (sendBatchMessage providerOk asciiLower requestZero))) \<subseteq> {0}"
    using ok requestZero_valid requestZero_fetch by (auto simp: z)
  have d: "sleepsOf (effects (processPair providerSendFails asciiLower requestOne [] 0 0
                          (js ''911234567890'') (js ''S1'') bempty)) = []"
    using bad resolvesTo_phone_A allSent_fails
    by (simp add: contents_hello bempty_def)
  have b': "pairsOf (snd (sendBatchMessage providerOk asciiLower requestZero))
       = [(js ''911234567890'', js ''S1''), (js ''911234567890'', js ''S2''),
          (js ''919876543210'', js ''S1''), (js ''919876543210'', js ''S2'')]"
    using b by (simp add: requestZero_def requestAB_def)
  show ?thesis
    using a b' c d providerOk_random z(1) o requestZero_valid requestZero_fetch
      resolvesTo_phone_A allSent_ok allSent_fails
    by (simp add: contents_hello)
qed

theorem batch_failures_recorded_witness:
  "fst (sendBatchMessage providerOk asciiLower requestABC)
     = Success 3
        [(sentEntry (js ''S1'') (js ''911234567890@c.us'') (js ''911234567890'')
            (js ''911234567890'') (js ''text'') None)\<lparr>e_messageId := Some (js ''msg'')\<rparr>,
         failedEntry (js ''S1'') (js ''Nobody'') (js ''Recipient not found: '' @ js ''Nobody''),
         (sentEntry (js ''S1'') (js ''919876543210@c.us'') (js ''919876543210'')
            (js ''919876543210'') (js ''text'') None)\<lparr>e_messageId := Some (js ''msg'')\<rparr>]
   \<and> sendsOf (snd (sendBatchMessage providerOk asciiLower requestABC))
     = [(js ''S1'', js ''911234567890@c.us'', Text (js ''hello'')),
        (js ''S1'', js ''919876543210@c.us'', Text (js ''hello''))]
   \<and> validRequest requestABC
   \<and> fetchRemote providerOk 0 (rq_mediaUrls requestABC) [] = Inr []
   \<and> clientMapOf providerOk requestABC (js ''S1'') \<noteq> None
   \<and> resolvesTo providerOk asciiLower 1 0 (js ''Nobody'') = None
   \<and> (\<exists>ledger. fst (sendBatchMessage providerOk asciiLower requestABC)
                   = Success (length ledger) ledger
         \<and> failedEntry (js ''S1'') (js ''Nobody'') (js ''Recipient not found: '' @ js ''Nobody'')
             \<in> set ledger)
   \<and> validRequest requestOne
   \<and> fetchRemote providerSendFails 0 (rq_mediaUrls requestOne) [] = Inr []
   \<and> clientMapOf providerSendFails requestOne (js ''S1'') \<noteq> None
   \<and> p_sendMessage providerSendFails 0 0 0 (js ''911234567890@c.us'') (Text (js ''hello''))
       = Inl (js ''Evaluation failed'')
   \<and> (\<exists>ledger. fst (sendBatchMessage providerSendFails asciiLower requestOne)
                   = Success (length ledger) ledger
         \<and> failedEntry (js ''S1'') (js ''911234567890'') (js ''Evaluation failed'')
             \<in> set ledger)"
proof -
  note t1 = batch_failures_recorded [OF requestABC_valid requestABC_fetch, of asciiLower]
  have cm: "clientMapOf providerOk requestABC (js ''S1'') = None \<longleftrightarrow> False"
    using requestABC_ready by simp
  have prep: "snd (prepareClients providerOk 0 (rq_sessionIds requestABC) (Map.empty, [])) = []"
    by (simp add: requestABC_def providerOk_def)
  have en: "enumerate 0 (rq_to requestABC)
              = [(0, js ''911234567890''), (1, js ''Nobody''), (2, js ''919876543210'')]"
    "enumerate 0 (rq_sessionIds requestABC) = [(0, js ''S1'')]"
    by (simp_all add: requestABC_def)
  have rC: "resolvesTo providerOk asciiLower 2 0 (js ''919876543210'')
              = Some (js ''919876543210@c.us'')"
    by (simp add: resolvesTo_def resolve_phone_C passThrough_def js_not_Nil)
  have nm: "resolvedName providerOk asciiLower 0 0 (js ''911234567890'') = js ''911234567890''"
    "resolvedName providerOk asciiLower 2 0 (js ''919876543210'') = js ''919876543210''"
    by (simp_all add: resolvedName_def resolve_phone_A resolve_phone_C passThrough_def)
  have items: "\<And>s rid r g. pairItems requestABC [] s rid r g
              = [(Text (js ''hello''), sentEntry s rid r g (js ''text'') None)]"
    by (simp add: pairItems_def requestABC_def trim_hello js_not_Nil)
  have rN: "resolvesTo providerOk asciiLower (Suc 0) 0 (js ''Nobody'') = None"
    using resolvesTo_Nobody by simp
  have sm: "\<And>ri si k chatId c. p_sendMessage providerOk ri si k chatId c = Inr (js ''msg'')"
    by (simp add: providerOk_def)
  have pl: "pairLedger providerOk asciiLower requestABC [] 0 0 (js ''911234567890'') (js ''S1'')
       = [(sentEntry (js ''S1'') (js ''911234567890@c.us'') (js ''911234567890'')
            (js ''911234567890'') (js ''text'') None)\<lparr>e_messageId := Some (js ''msg'')\<rparr>]"
    "pairLedger providerOk asciiLower requestABC [] (Suc 0) 0 (js ''Nobody'') (js ''S1'')
       = [failedEntry (js ''S1'') (js ''Nobody'') (js ''Recipient not found: '' @ js ''Nobody'')]"
    "pairLedger providerOk asciiLower requestABC [] 2 0 (js ''919876543210'') (js ''S1'')
       = [(sentEntry (js ''S1'') (js ''919876543210@c.us'') (js ''919876543210'')
            (js ''919876543210'') (js ''text'') None)\<lparr>e_messageId := Some (js ''msg'')\<rparr>]"
    by (simp_all add: pairLedger_def resolvesTo_phone_A rC rN nm items sm)
  have ps: "pairSends providerOk asciiLower requestABC [] 0 0 (js ''911234567890'') (js ''S1'')
       = [(js ''S1'', js ''911234567890@c.us'', Text (js ''hello''))]"
    "pairSends providerOk asciiLower requestABC [] (Suc 0) 0 (js ''Nobody'') (js ''S1'') = []"
    "pairSends providerOk asciiLower requestABC [] 2 0 (js ''919876543210'') (js ''S1'')
       = [(js ''S1'', js ''919876543210@c.us'', Text (js ''hello''))]"
    by (simp_all add: pairSends_def resolvesTo_phone_A rC rN contents_hello sm)
  have full: "fst (sendBatchMessage providerOk asciiLower requestABC)
     = Success 3
        [(sentEntry (js ''S1'') (js ''911234567890@c.us'') (js ''911234567890'')
            (js ''911234567890'') (js ''text'') None)\<lparr>e_messageId := Some (js ''msg'')\<rparr>,
         failedEntry (js ''S1'') (js ''Nobody'') (js ''Recipient not found: '' @ js ''Nobody''),
         (sentEntry (js ''S1'') (js ''919876543210@c.us'') (js ''919876543210'')
            (js ''919876543210'') (js ''text'') None)\<lparr>e_messageId := Some (js ''msg'')\<rparr>]"
    using t1 by (auto simp: prep en cm pl)
  have sends: "sendsOf (snd (sendBatchMessage providerOk asciiLower requestABC))
     = [(js ''S1'', js ''911234567890@c.us'', Text (js ''hello'')),
        (js ''S1'', js ''919876543210@c.us'', Text (js ''hello''))]"
    using t1 by (auto simp: en cm ps)
  obtain l1 where l1:
    "fst (sendBatchMessage providerOk asciiLower requestABC) = Success (length l1) l1"
    "\<forall>i<length (rq_to requestABC). \<forall>j<length (rq_sessionIds requestABC).
        clientMapOf providerOk requestABC (rq_sessionIds requestABC ! j) \<noteq> None \<longrightarrow>
        (resolvesTo providerOk asciiLower i j (rq_to requestABC ! i) = None \<longrightarrow>
           failedEntry (rq_sessionIds requestABC ! j) (rq_to requestABC ! i)
             (js ''Recipient not found: '' @ rq_to requestABC ! i) \<in> set l1)"
    using batch_failures_recorded [OF requestABC_valid requestABC_fetch, of asciiLower] by blast
  have i1: "(1::nat) < length (rq_to requestABC)" "(0::nat) < length (rq_sessionIds requestABC)"
    "rq_to requestABC ! 1 = js ''Nobody''" "rq_sessionIds requestABC ! 0 = js ''S1''"
    by (simp_all add: requestABC_def)
  have m1: "failedEntry (js ''S1'') (js ''Nobody'') (js ''Recipient not found: '' @ js ''Nobody'')
             \<in> set l1"
    using l1(2) i1 requestABC_ready resolvesTo_Nobody by metis
  obtain l2 where l2:
    "fst (sendBatchMessage providerSendFails asciiLower requestOne) = Success (length l2) l2"
    "\<forall>i<length (rq_to requestOne). \<forall>j<length (rq_sessionIds requestOne).
        clientMapOf providerSendFails requestOne (rq_sessionIds requestOne ! j) \<noteq> None \<longrightarrow>
        (\<forall>rid k msg.
            resolvesTo providerSendFails asciiLower i j (rq_to requestOne ! i) = Some rid
            \<and> k < length (pairContents requestOne [])
            \<and> p_sendMessage providerSendFails i j k rid (pairContents requestOne [] ! k) = Inl msg
            \<and> (\<forall>k'<k. \<exists>m. p_sendMessage providerSendFails i j k' rid
                               (pairContents requestOne [] ! k') = Inr m)
            \<longrightarrow> failedEntry (rq_sessionIds requestOne ! j) (rq_to requestOne ! i) msg \<in> set l2)"
    using batch_failures_recorded [OF requestOne_valid requestOne_fetch, of asciiLower] by blast
  have i2: "(0::nat) < length (rq_to requestOne)" "(0::nat) < length (rq_sessionIds requestOne)"
    "rq_to requestOne ! 0 = js ''911234567890''" "rq_sessionIds requestOne ! 0 = js ''S1''"
    by (simp_all add: requestOne_def)
  have sf: "p_sendMessage providerSendFails 0 0 0 (js ''911234567890@c.us'') (Text (js ''hello''))
       = Inl (js ''Evaluation failed'')"
    by (simp add: providerSendFails_def providerOk_def)
  have pre: "resolvesTo providerSendFails asciiLower 0 0 (rq_to requestOne ! 0)
               = Some (js ''911234567890@c.us'')
            \<and> 0 < length (pairContents requestOne [])
            \<and> p_sendMessage providerSendFails 0 0 0 (js ''911234567890@c.us'')
                 (pairContents requestOne [] ! 0) = Inl (js ''Evaluation failed'')
            \<and> (\<forall>k'<0. \<exists>m. p_sendMessage providerSendFails 0 0 k' (js ''911234567890@c.us'')
                               (pairContents requestOne [] ! k') = Inr m)"
    using sf by (simp add: i2 resolvesTo_phone_A contents_hello)
  have "clientMapOf providerSendFails requestOne (rq_sessionIds requestOne ! 0) \<noteq> None"
    using requestOne_ready i2 by simp
  then have m2: "failedEntry (rq_sessionIds requestOne ! 0) (rq_to requestOne ! 0)
                    (js ''Evaluation failed'') \<in> set l2"
    using l2(2) i2(1,2) pre by blast
  show ?thesis
    using full sends l1(1) m1 l2(1) m2 requestABC_valid requestABC_fetch requestABC_ready resolvesTo_Nobody
      requestOne_valid requestOne_fetch requestOne_ready sf i2
    by auto
qed

section \<open>Properties of the webhook manager\<close>

lemma sessionHook_url: "webhookUrl sessionHook (js ''session'') = Some (js ''http://hooks.invalid/wa'')"
  by (simp add: webhookUrl_def truthyUrl_def sessionHook_def js_def)

lemma noWebhooks_url: "webhookUrl noWebhooks (js ''session'') = None"
  by (simp add: webhookUrl_def truthyUrl_def noWebhooks_def)

text \<open>
  C8: \<open>sendWebhook\<close> returns to its caller for every category, payload and outcome of the
  POST. With no URL for the category it does nothing (no POST, no log line). When the POST
  fails, the effects are that one POST and the log line with the message of the error:
  nothing is sent a second time and nothing is thrown. In every case at most one POST is
  made. The event senders return what \<open>sendWebhook\<close> returns, so they do not raise either.
\<close>

theorem sendWebhook_never_raises:
  "fst (sendWebhook w post eventType body) = Inr ()
   \<and> length (postsOf (snd (sendWebhook w post eventType body))) \<le> 1
   \<and> (webhookUrl w eventType = None \<longrightarrow> snd (sendWebhook w post eventType body) = [])
   \<and> (\<forall>url msg. webhookUrl w eventType = Some url \<and> post url eventType body = Inl msg \<longrightarrow>
         snd (sendWebhook w post eventType body)
           = [Post url eventType body, LogFailed eventType msg])
   \<and> fst (notifySessionUpdate w post sessionId st phone ts) = Inr ()
   \<and> fst (notifyMessageDelivered w post messageId st ts sessionId) = Inr ()"
  by (auto simp: sendWebhook_def notifySessionUpdate_def notifyMessageDelivered_def
      split: option.splits sum.splits)

theorem sendWebhook_never_raises_witness:
  "webhookUrl noWebhooks (js ''session'') = None
   \<and> sendWebhook noWebhooks postTimesOut (js ''session'') [(''event'', JStr (js ''session.update''))]
       = (Inr (), [])
   \<and> webhookUrl sessionHook (js ''session'') = Some (js ''http://hooks.invalid/wa'')
   \<and> postTimesOut (js ''http://hooks.invalid/wa'') (js ''session'')
        [(''event'', JStr (js ''session.update''))] = Inl (js ''timeout of 5000ms exceeded'')
   \<and> sendWebhook sessionHook postTimesOut (js ''session'') [(''event'', JStr (js ''session.update''))]
       = (Inr (), [Post (js ''http://hooks.invalid/wa'') (js ''session'')
                     [(''event'', JStr (js ''session.update''))],
                   LogFailed (js ''session'') (js ''timeout of 5000ms exceeded'')])"
proof -
  let ?b = "[(''event'', JStr (js ''session.update''))] :: payload"
  note a = sendWebhook_never_raises [of noWebhooks postTimesOut "js ''session''" ?b]
  note b = sendWebhook_never_raises [of sessionHook postTimesOut "js ''session''" ?b]
  have p: "postTimesOut (js ''http://hooks.invalid/wa'') (js ''session'') ?b
             = Inl (js ''timeout of 5000ms exceeded'')"
    by (simp add: postTimesOut_def)
  have 1: "sendWebhook noWebhooks postTimesOut (js ''session'') ?b = (Inr (), [])"
    using a noWebhooks_url by (simp add: prod_eq_iff)
  have 2: "sendWebhook sessionHook postTimesOut (js ''session'') ?b
       = (Inr (), [Post (js ''http://hooks.invalid/wa'') (js ''session'') ?b,
                   LogFailed (js ''session'') (js ''timeout of 5000ms exceeded'')])"
    using b sessionHook_url p by (simp add: prod_eq_iff)
  show ?thesis using 1 2 p noWebhooks_url sessionHook_url by simp
qed

section \<open>Properties of the session manager\<close>

lemma strip_end_head:
  assumes "\<not> P x"
  shows "\<exists>v. rev (dropWhile P (rev (x # ys))) = x # v"
proof (cases "\<forall>y\<in>set (rev ys). P y")
  case True
  then have "dropWhile P (rev ys @ [x]) = dropWhile P [x]"
    by (simp add: dropWhile_append)
  then show ?thesis using assms by simp
next
  case False
  then have "dropWhile P (rev ys @ [x]) = dropWhile P (rev ys) @ [x]"
    by (simp add: dropWhile_append)
  then show ?thesis by simp
qed

lemma trim_idem: "trim (trim s) = trim s"
proof (cases "dropWhile isSpace s")
  case Nil
  have e: "trim s = []" unfolding trim_def Nil by simp
  have "trim [] = []" by (simp add: trim_def)
  then show ?thesis unfolding e .
next
  case (Cons x ys)
  have nx: "\<not> isSpace x"
    using hd_dropWhile[of isSpace s] Cons by simp
  obtain v where v: "rev (dropWhile isSpace (rev (x # ys))) = x # v"
    using strip_end_head[of isSpace x ys] nx by blast
  have t: "trim s = x # v" unfolding trim_def Cons by (rule v)
  have "dropWhile isSpace (trim s) = trim s" using nx t by simp
  then have "trim (trim s) = rev (dropWhile isSpace (rev (trim s)))"
    by (simp add: trim_def)
  also have "rev (trim s) = dropWhile isSpace (rev (dropWhile isSpace s))"
    by (simp add: trim_def)
  also have "rev (dropWhile isSpace (dropWhile isSpace (rev (dropWhile isSpace s)))) = trim s"
    by (simp add: trim_def)
  finally show ?thesis .
qed

text \<open>
  C10: \<open>restoreSession\<close> and \<open>getOrRestoreClient\<close> trim the session id first, so a call
  with \<open>s\<close> and a call with \<open>trim(s)\<close> give the same result and the same state after it
  (the same pool entry consulted and filled, the same document loaded), in every state
  and environment; this holds for the first step of a call, taken alone, as well.
\<close>

theorem restore_trims_session_id:
  "advance (AtEntry (trim s)) w = advance (AtEntry s) w
   \<and> restoreSession e w (trim s) = restoreSession e w s
   \<and> getOrRestoreClient e w (trim s) = getOrRestoreClient e w s"
  unfolding advance.simps restoreSession_def getOrRestoreClient_def trim_idem
  by simp

lemma dropBroken_fields:
  "sessions (dropBroken w k) = sessions w"
  "handleCount (dropBroken w k) = handleCount w"
  "pooledReady w k = None \<Longrightarrow> pooledReady (dropBroken w k) k = None"
  by (auto simp: dropBroken_def pooledReady_def split: option.splits probe.splits)



lemma construct_fields:
  "fst (createClient_construct w u k) = handleCount w"
  "handleCount (snd (createClient_construct w u k)) = Suc (handleCount w)"
  "clients (snd (createClient_construct w u k)) k = Some (handleCount w)"
  "sessions (snd (createClient_construct w u k)) = sessions w"
  by (simp_all add: createClient_construct_def Let_def)





text \<open>A call that nothing interrupts in its two reads is the task run for three steps,
  followed by the end of the race and the polling loop: the tasks and \<open>restoreSession\<close>
  are the same code.\<close>

lemma restoreSession_alone:
  assumes "loadEvents e = []" and "lookupEvents e = []"
  shows "restoreSession e w s =
     (case run 3 (AtEntry s) w of
        (Ended r, w1) \<Rightarrow> (r, w1)
      | (AtPoll k, w1) \<Rightarrow> waitReady e 0 w1 k
      | (AtInit c k, w1) \<Rightarrow>
          (case createClient_end (initOutcome e) (fireAll (initEvents e) w1) k c of
             (Inl msg, w2) \<Rightarrow> (Inl msg, w2)
           | (Inr c1, w2) \<Rightarrow> waitReady e 0 w2 k)
      | (AtEntry k, w1) \<Rightarrow> (Inl [], w1)
      | (AtLoad k, w1) \<Rightarrow> (Inl [], w1)
      | (AtLookup u k, w1) \<Rightarrow> (Inl [], w1))"
proof (cases "pooledReady w (trim s)")
  case (Some h)
  then show ?thesis
    by (simp add: restoreSession_def restoreSession_check_def numeral_3_eq_3 Let_def)
next
  case None
  let ?w1 = "dropBroken w (trim s)"
  have p1: "pooledReady ?w1 (trim s) = None" using None by (simp add: dropBroken_fields)
  show ?thesis
  proof (cases "sessions w (trim s)")
    case N: None
    then show ?thesis using None
      by (simp add: restoreSession_def restoreSession_check_def numeral_3_eq_3 Let_def assms
          dropBroken_fields)
  next
    case (Some d)
    then show ?thesis using None p1
      by (simp add: restoreSession_def restoreSession_check_def numeral_3_eq_3 Let_def assms
          dropBroken_fields createClient_def createClient_check_def split: prod.splits)
  qed
qed











lemma fire_keeps_doc:
  "sessions w k = Some d \<Longrightarrow> \<exists>d'. sessions (fire ev w) k = Some d'"
  by (cases ev) (auto simp: updateDoc_def upsertDoc_def Let_def split: option.splits)

lemma fireAll_keeps_doc:
  "sessions w k = Some d \<Longrightarrow> \<exists>d'. sessions (fireAll evs w) k = Some d'"
proof (induction evs arbitrary: w d)
  case Nil
  then show ?case by simp
next
  case (Cons ev evs)
  from fire_keeps_doc[OF Cons.prems] obtain d1 where "sessions (fire ev w) k = Some d1" by blast
  from Cons.IH[OF this] show ?case by simp
qed

lemma createClient_end_failure:
  assumes "sessions w k = Some d"
  shows "createClient_end (Some msg) w k h =
     (Inl msg,
      w\<lparr>sessions := (sessions w)(k \<mapsto> d\<lparr>d_status := (if isNetworkError msg then StNetworkError
                                                       else StFailed),
                                         d_updatedAt := clock w\<rparr>),
        clients := (clients w)(k := None)\<rparr>)"
  using assms by (simp add: createClient_end_def updateDoc_def Let_def)

text \<open>
  C2 (amended): for a freshly allocated id (no document and no pool entry under it), when
  the initialization of the client fails (it rejects, or the 60 second timer wins) after
  the pending document is written, \<open>startNewSession\<close> throws that error to its caller: the
  session id is not returned. The document is left in the terminal state
  \<open>network_error\<close> or \<open>failed\<close>, by the message of the error, and the client is removed from
  the pool.
\<close>

theorem startNewSession_init_failure:
  assumes "initOutcome e = Some msg"
    and "sessions w (js ''session_'' @ uuid) = None"
    and "clients w (js ''session_'' @ uuid) = None"
  shows "fst (startNewSession e w userId sessionName uuid) = Inl msg
     \<and> (\<exists>d. sessions (snd (startNewSession e w userId sessionName uuid)) (js ''session_'' @ uuid)
               = Some d
            \<and> d_status d = (if isNetworkError msg then StNetworkError else StFailed)
            \<and> terminal (d_status d))
     \<and> clients (snd (startNewSession e w userId sessionName uuid)) (js ''session_'' @ uuid) = None"
proof -
  let ?sid = "js ''session_'' @ uuid"
  let ?w1 = "purgeStale userId w"
  define doc where "doc = \<lparr>d_userId = Some userId,
       d_sessionName = (if sessionName = [] then js ''Session '' @ localeString e else sessionName),
       d_status = StPending, d_phoneNumber = None, d_qr = None, d_updatedAt = clock ?w1\<rparr>"
  define w2 where "w2 = ?w1\<lparr>sessions := (sessions ?w1)(?sid \<mapsto> doc)\<rparr>"
  have s1: "sessions ?w1 ?sid = None" using assms(2) by (simp add: purgeStale_def)
  have c2: "clients w2 ?sid = None" using assms(3) by (simp add: w2_def purgeStale_def)
  then have p2: "createClient_check w2 ?sid = (None, w2)"
    by (simp add: createClient_check_def pooledReady_def dropBroken_def)
  have "sessions w2 ?sid = Some doc" by (simp add: w2_def)
  then obtain d3 where d3: "sessions (fireAll (lookupEvents e) w2) ?sid = Some d3"
    using fireAll_keeps_doc by blast
  let ?c = "fst (createClient_construct (fireAll (lookupEvents e) w2) (Some userId) ?sid)"
  let ?w3 = "snd (createClient_construct (fireAll (lookupEvents e) w2) (Some userId) ?sid)"
  have "sessions ?w3 ?sid = Some d3" using d3 by (simp add: construct_fields)
  then obtain d4 where d4: "sessions (fireAll (initEvents e) ?w3) ?sid = Some d4"
    using fireAll_keeps_doc by blast
  let ?w4 = "fireAll (initEvents e) ?w3"
  have cc: "createClient e w2 (Some userId) ?sid sessionName
      = createClient_end (Some msg) ?w4 ?sid ?c"
    by (simp add: createClient_def p2 assms(1) split: prod.splits)
  note ce = createClient_end_failure[OF d4, of msg ?c]
  have run: "startNewSession e w userId sessionName uuid
      = (Inl msg, snd (createClient_end (Some msg) ?w4 ?sid ?c))"
    unfolding startNewSession_def Let_def s1 option.case doc_def[symmetric] w2_def[symmetric] cc
    by (simp add: ce)
  show ?thesis unfolding run by (simp add: ce terminal_def)
qed

lemma timeout_not_network: "\<not> isNetworkError (js ''Initialization timeout after 60s'')"
  by (simp add: isNetworkError_def js_def)

lemma fresh_id:
  "sessions worldStored (js ''session_'' @ js ''abc'') = None"
  "clients worldStored (js ''session_'' @ js ''abc'') = None"
  by (simp_all add: worldStored_def js_def)

theorem startNewSession_init_failure_witness:
  "initOutcome envTimeout = Some (js ''Initialization timeout after 60s'')
   \<and> sessions worldStored (js ''session_'' @ js ''abc'') = None
   \<and> clients worldStored (js ''session_'' @ js ''abc'') = None
   \<and> fst (startNewSession envTimeout worldStored (js ''u1'') (js ''Sales'') (js ''abc''))
       = Inl (js ''Initialization timeout after 60s'')
   \<and> (\<exists>d. sessions (snd (startNewSession envTimeout worldStored (js ''u1'') (js ''Sales'')
                              (js ''abc''))) (js ''session_'' @ js ''abc'') = Some d
          \<and> d_status d = StFailed)"
proof -
  have i: "initOutcome envTimeout = Some (js ''Initialization timeout after 60s'')"
    by (simp add: envTimeout_def)
  from startNewSession_init_failure [OF i fresh_id, of "js ''u1''" "js ''Sales''"]
  show ?thesis using i fresh_id timeout_not_network by auto
qed

text \<open>
  C2, as the claim states it, fails: with an initialization that times out,
  \<open>startNewSession\<close> ends with the error, not with the session id.
\<close>

theorem startNewSession_raises_counterexample:
  "fst (startNewSession envTimeout worldStored (js ''u1'') (js ''Sales'') (js ''abc''))
     = Inl (js ''Initialization timeout after 60s'')
   \<and> fst (startNewSession envTimeout worldStored (js ''u1'') (js ''Sales'') (js ''abc''))
     \<noteq> Inr (js ''session_'' @ js ''abc'')"
  by (simp add: startNewSession_def purgeStale_def worldStored_def envTimeout_def Let_def
      createClient_def createClient_check_def createClient_construct_def createClient_end_def
      pooledReady_def dropBroken_def
      updateDoc_def staleDoc_def connectedDoc_def js_def)

text \<open>What \<open>deleteSession\<close> does in general: it returns the document the collection held,
  the document is gone afterwards, the client is out of the pool when \<open>destroy()\<close>
  completes (or none was pooled), and the folder is gone when \<open>rmSync\<close> completes.\<close>

lemma deleteSession_effects:
  "fst (deleteSession destroyOutcome rmOutcome w sessionId) = sessions w sessionId
   \<and> sessions (snd (deleteSession destroyOutcome rmOutcome w sessionId)) sessionId = None
   \<and> (destroyOutcome = None \<longrightarrow>
        clients (snd (deleteSession destroyOutcome rmOutcome w sessionId)) sessionId = None)
   \<and> (rmOutcome = None \<longrightarrow>
        sessionId \<notin> authFolders (snd (deleteSession destroyOutcome rmOutcome w sessionId)))
   \<and> (clients w sessionId = None \<longrightarrow>
        clients (snd (deleteSession destroyOutcome rmOutcome w sessionId)) sessionId = None)"
  by (auto simp: deleteSession_def Let_def split: option.splits)

lemma deleteSessionController_not_found:
  "(\<exists>m. fst (deleteSessionController destroyOutcome rmOutcome w sessionId) = NotFound404 m)
     \<longleftrightarrow> sessions w sessionId = None"
  by (auto simp: deleteSessionController_def deleteSession_def Let_def split: option.splits prod.splits)

text \<open>
  C9 at a failing input: session \<open>s1\<close> has a document, a credential folder and a pooled
  client whose \<open>destroy()\<close> throws. \<open>deleteSession\<close> answers that the session existed and
  removes the document and the folder, but the client stays in the pool: \<open>clients.delete\<close>
  sits inside the \<open>try\<close>, after the \<open>destroy()\<close> that threw. \<open>clearAllSessions\<close>, on the
  same client, removes it from the pool.
\<close>

theorem deleteSession_destroy_failure_keeps_handle:
  "clients worldPooled (js ''s1'') = Some 0
   \<and> fst (deleteSessionController (Some (js ''Protocol error: Target closed'')) None worldPooled (js ''s1''))
       = Ok200 (js ''Session deleted successfully'') (js ''s1'')
   \<and> sessions (snd (deleteSession (Some (js ''Protocol error: Target closed'')) None worldPooled (js ''s1'')))
        (js ''s1'') = None
   \<and> js ''s1'' \<notin> authFolders (snd (deleteSession (Some (js ''Protocol error: Target closed'')) None worldPooled
                                        (js ''s1'')))
   \<and> clients (snd (deleteSession (Some (js ''Protocol error: Target closed'')) None worldPooled (js ''s1'')))
        (js ''s1'') = Some 0
   \<and> clients (clearClient (Some (js ''Protocol error: Target closed'')) worldPooled (js ''s1'')) (js ''s1'') = None"
  by (simp add: deleteSessionController_def deleteSession_def clearClient_def worldPooled_def
      worldStored_def Let_def)

end
